theory Spec2Isabelle
  imports Complex_Main "HOL-Library.Multiset"
begin

section \<open>JavaScript values used by the front end\<close>

text \<open>
  Numbers that the code formats into strings are non-negative integers; template
  literals render them in decimal without sign, exponent or separators.
\<close>

definition digit_char :: "nat \<Rightarrow> char" where
  "digit_char d = ''0123456789'' ! d"

function string_of_nat :: "nat \<Rightarrow> string" where
  "string_of_nat n =
     (if n < 10 then [digit_char n]
      else string_of_nat (n div 10) @ [digit_char (n mod 10)])"
  by pat_completeness auto
termination
  by (relation "measure (\<lambda>n. n)") auto

declare string_of_nat.simps [simp del]

text \<open>Reading a decimal numeral back; used only to state that the rendering is faithful.\<close>

definition digit_val :: "char \<Rightarrow> nat" where
  "digit_val c = of_char c - 48"

definition nat_of_string :: "string \<Rightarrow> nat" where
  "nat_of_string s = foldl (\<lambda>acc c. 10 * acc + digit_val c) 0 s"

section \<open>The Date object\<close>

text \<open>
  A time value is a number of milliseconds since the epoch, or \<open>NaN\<close> for an invalid
  date: \<open>None\<close>. Comparing with \<open>NaN\<close> is false and arithmetic on \<open>NaN\<close> gives \<open>NaN\<close>.
\<close>

definition num_le :: "int option \<Rightarrow> int option \<Rightarrow> bool" where
  "num_le a b = (case (a, b) of (Some x, Some y) \<Rightarrow> x \<le> y | _ \<Rightarrow> False)"

definition num_sub :: "int option \<Rightarrow> int option \<Rightarrow> int option" where
  "num_sub a b = (case (a, b) of (Some x, Some y) \<Rightarrow> Some (x - y) | _ \<Rightarrow> None)"

text \<open>
  The environment of \<open>Date\<close>: \<open>parseOther\<close> is \<open>Date.parse\<close> on the strings whose
  parse is not fixed below (the backend's timestamps; \<open>None\<close> where the string is not a
  date), \<open>tzOffset t\<close> is the local zone's offset from UTC in minutes at the instant
  \<open>t\<close>, \<open>tzOffset2000\<close> the offset on the first of January 2000, and \<open>zoneName\<close> the
  zone part that \<open>toTimeString\<close> prints.
\<close>

record DateApi =
  parseOther :: "string \<Rightarrow> int option"
  tzOffset :: "int \<Rightarrow> int"
  tzOffset2000 :: int
  zoneName :: "int \<Rightarrow> string"

definition is_digit :: "char \<Rightarrow> bool" where
  "is_digit c = (48 \<le> (of_char c :: nat) \<and> (of_char c :: nat) \<le> 57)"

definition two_digits :: "char \<Rightarrow> char \<Rightarrow> nat option" where
  "two_digits a b =
     (if is_digit a \<and> is_digit b then Some (10 * digit_val a + digit_val b) else None)"

definition pad2 :: "nat \<Rightarrow> string" where
  "pad2 n = [digit_char (n div 10), digit_char (n mod 10)]"

text \<open>
  The time part \<open>HH:mm\<close> of the date-time string format, as minutes of the day; an hour
  above 24, a minute above 59 or anything after 24:00 is an illegal value.
\<close>

datatype clock = NotClock | IllegalClock | Clock nat

definition parse_hhmm :: "string \<Rightarrow> clock" where
  "parse_hhmm s =
     (case s of
        [h1, h2, c, m1, m2] \<Rightarrow>
          (case (two_digits h1 h2, two_digits m1 m2) of
             (Some h, Some m) \<Rightarrow>
               if c \<noteq> CHR '':'' then NotClock
               else if (h < 24 \<and> m < 60) \<or> (h = 24 \<and> m = 0) then Clock (60 * h + m)
               else IllegalClock
           | _ \<Rightarrow> NotClock)
      | _ \<Rightarrow> NotClock)"

fun after_prefix :: "string \<Rightarrow> string \<Rightarrow> string option" where
  "after_prefix [] s = Some s"
| "after_prefix (p # ps) [] = None"
| "after_prefix (p # ps) (c # cs) = (if p = c then after_prefix ps cs else None)"

text \<open>
  \<open>new Date(s).getTime()\<close>. A string \<open>2000-01-01THH:mm\<close> is a local time on that day
  (946684800000 is midnight UTC of it); with an illegal hour or minute it is no date,
  and neither is \<open>2000-01-01TInval\<close>, which the search page builds from an invalid
  date. Every other string is left to \<open>parseOther\<close>.
\<close>

definition getTime :: "DateApi \<Rightarrow> string \<Rightarrow> int option" where
  "getTime d s =
     (case after_prefix ''2000-01-01T'' s of
        None \<Rightarrow> parseOther d s
      | Some rest \<Rightarrow>
          (case parse_hhmm rest of
             Clock m \<Rightarrow> Some (946684800000 + (int m - tzOffset2000 d) * 60000)
           | IllegalClock \<Rightarrow> None
           | NotClock \<Rightarrow> if rest = ''Inval'' then None else parseOther d s))"

text \<open>
  \<open>new Date(s).toTimeString()\<close>: the local wall-clock time \<open>HH:mm:ss\<close> followed by the
  zone, or \<open>Invalid Date\<close>.
\<close>

definition toTimeString :: "DateApi \<Rightarrow> string \<Rightarrow> string" where
  "toTimeString d s =
     (case getTime d s of
        None \<Rightarrow> ''Invalid Date''
      | Some t \<Rightarrow>
          (let minuteOfDay = nat ((t div 60000 + tzOffset d t) mod 1440)
           in pad2 (minuteOfDay div 60) @ '':'' @ pad2 (minuteOfDay mod 60) @ '':''
              @ pad2 (nat ((t div 1000) mod 60)) @ zoneName d t))"

section \<open>Domain types (types/index.ts)\<close>

datatype SeatClass = FIRST | BUSINESS | ECONOMY

datatype FlightStatus =
  SCHEDULED | BOARDING | DEPARTED | IN_FLIGHT | ARRIVED | CANCELLED | DELAYED

text \<open>
  The airplane fields are the ones the pages read: \<open>flight.airplane.firstClassCapacity\<close>
  and its siblings. JavaScript numbers holding counts are integers.
\<close>

record Airplane =
  firstClassCapacity :: int
  businessClassCapacity :: int
  economyClassCapacity :: int

text \<open>
  Timestamps stay the ISO strings the backend sends; prices are JavaScript numbers,
  taken as reals (JSON carries no NaN).
\<close>

record Flight =
  flightId :: string
  flightNumber :: string
  airplane :: Airplane
  departureTime :: string
  arrivalTime :: string
  status :: FlightStatus
  firstClassPrice :: real
  businessClassPrice :: real
  economyClassPrice :: real
  availableFirstClassSeats :: int
  availableBusinessClassSeats :: int
  availableEconomyClassSeats :: int

text \<open>
  \<open>ApiResponse<T>\<close>: \<open>data\<close> is \<open>None\<close> when the field is null or missing, which is
  what \<open>response.data || []\<close> guards against.
\<close>

record 'a ApiResponse =
  success :: bool
  data :: "'a option"
  message :: "string option"

text \<open>
  Untyped values: the body of an error response (\<open>data: any\<close>) and whatever
  \<open>JSON.parse\<close> returns. An object is its list of key-value pairs, each key once.
  \<open>JNull\<close> stands for both \<open>null\<close> and \<open>undefined\<close> where a whole value is meant;
  a missing property is \<open>None\<close>.
\<close>

datatype json =
  JNull | JBool bool | JNum real | JStr string | JArr "json list"
  | JObj "(string \<times> json) list"

fun truthy :: "json \<Rightarrow> bool" where
  "truthy JNull = False"
| "truthy (JBool b) = b"
| "truthy (JNum x) = (x \<noteq> 0)"
| "truthy (JStr s) = (s \<noteq> [])"
| "truthy (JArr xs) = True"
| "truthy (JObj kvs) = True"

text \<open>Reading a property of a value that is not null: \<open>v.name\<close>.\<close>

fun property :: "json \<Rightarrow> string \<Rightarrow> json option" where
  "property (JObj kvs) name = map_of kvs name"
| "property v name = None"

definition truthy_prop :: "json \<Rightarrow> string \<Rightarrow> bool" where
  "truthy_prop v name = (case property v name of None \<Rightarrow> False | Some x \<Rightarrow> truthy x)"

text \<open>\<open>a || b\<close> on possibly missing values.\<close>

definition js_or :: "json option \<Rightarrow> json option \<Rightarrow> json option" where
  "js_or a b = (case a of None \<Rightarrow> b | Some x \<Rightarrow> if truthy x then a else b)"

text \<open>
  The Axios error as \<open>handleError\<close> reads it: \<open>error.response\<close> with its status and
  body, whether \<open>error.request\<close> is set, and \<open>error.message\<close>.
\<close>

record AxiosResponse =
  responseStatus :: nat
  responseData :: json

record AxiosError =
  errorResponse :: "AxiosResponse option"
  errorRequest :: bool
  errorMessage :: "string option"

text \<open>
  \<open>AppError\<close>, the object \<open>handleError\<close> builds. Its \<open>details\<close> are the response body,
  the request object or the error itself.
\<close>

datatype details = OfData json | OfRequest | OfError AxiosError

record AppError =
  code :: string
  appMessage :: json
  details :: details

text \<open>
  What an \<open>ApiService\<close> method throws: the \<open>AppError\<close>, or the \<open>TypeError\<close> raised
  inside \<open>handleError\<close> when it reads a property of a null body.
\<close>

datatype thrown = Threw AppError | TypeError

text \<open>The outcome of awaiting a service call: the promise rejects or resolves.\<close>

datatype 'a awaited = Rejected thrown | Resolved "'a ApiResponse"

section \<open>CreateBookingDialog: seat map\<close>

record dialog_state =
  flights :: "Flight list"
  availableSeats :: "string list"
  bookedSeats :: "string list"

text \<open>
  \<open>Array.from({ length: n }, f)\<close>: the length is clamped at zero, and \<open>f\<close> receives
  the indices \<open>0 .. n - 1\<close> in order. Lists are unbounded; the engine's limit on the
  length of an array is not modelled.
\<close>

definition array_from :: "int \<Rightarrow> (nat \<Rightarrow> 'a) \<Rightarrow> 'a list" where
  "array_from len f = map f [0..<nat len]"

definition classCapacity :: "SeatClass \<Rightarrow> Flight \<Rightarrow> int" where
  "classCapacity sc flight =
     (if sc = FIRST then firstClassCapacity (airplane flight)
      else if sc = BUSINESS then businessClassCapacity (airplane flight)
      else economyClassCapacity (airplane flight))"

definition seatPrefix :: "SeatClass \<Rightarrow> string" where
  "seatPrefix sc =
     (if sc = FIRST then ''F'' else if sc = BUSINESS then ''B'' else ''E'')"

definition allSeats :: "SeatClass \<Rightarrow> Flight \<Rightarrow> string list" where
  "allSeats sc flight =
     array_from (classCapacity sc flight)
       (\<lambda>i. seatPrefix sc @ string_of_nat (i + 1))"

definition data_or_empty :: "'a list ApiResponse \<Rightarrow> 'a list" where
  "data_or_empty response = (case data response of None \<Rightarrow> [] | Some xs \<Rightarrow> xs)"

text \<open>
  \<open>loadAvailableSeats\<close>: a rejected call is caught and logged; an unsuccessful response
  changes nothing; a successful one stores the booked seats and, when the flight is among
  the loaded ones, the seats of the class that are not booked.
\<close>

definition loadAvailableSeats ::
  "string \<Rightarrow> SeatClass \<Rightarrow> string list awaited \<Rightarrow> dialog_state \<Rightarrow> dialog_state" where
  "loadAvailableSeats fid sc result st =
     (case result of
        Rejected e \<Rightarrow> st
      | Resolved response \<Rightarrow>
          if success response then
            let st1 = st\<lparr>bookedSeats := data_or_empty response\<rparr> in
            (case List.find (\<lambda>f. flightId f = fid) (flights st) of
               None \<Rightarrow> st1
             | Some flight \<Rightarrow>
                 let available =
                       filter (\<lambda>seat. seat \<notin> set (data_or_empty response))
                         (allSeats sc flight)
                 in st1\<lparr>availableSeats := available\<rparr>)
          else st)"



section \<open>FlightSearchPage: filtering and sorting\<close>

record TransitFlightOption =
  optionId :: string
  totalDuration :: real
  totalPrice :: real
  optionFlights :: "Flight list"

record FlightSearchResult =
  directFlights :: "Flight list"
  transitFlights :: "TransitFlightOption list"

datatype SortBy = ByPrice | ByDuration | ByDeparture

record TimeRange =
  rangeStart :: string
  rangeEnd :: string

record Filters =
  maxPrice :: real
  seatClass :: "SeatClass option"
  departureTimeRange :: TimeRange
  airlines :: "string list"
  maxStops :: int
  sortBy :: SortBy

definition classPrice :: "SeatClass option \<Rightarrow> Flight \<Rightarrow> real" where
  "classPrice sc flight =
     (if sc = Some FIRST then firstClassPrice flight
      else if sc = Some BUSINESS then businessClassPrice flight
      else economyClassPrice flight)"

definition classAvailableSeats :: "SeatClass option \<Rightarrow> Flight \<Rightarrow> int" where
  "classAvailableSeats sc flight =
     (if sc = Some FIRST then availableFirstClassSeats flight
      else if sc = Some BUSINESS then availableBusinessClassSeats flight
      else availableEconomyClassSeats flight)"

text \<open>\<open>new Date(`2000-01-01T${hhmm}`).getTime()\<close>, for a bound and for a flight.\<close>

definition clockTime :: "DateApi \<Rightarrow> string \<Rightarrow> int option" where
  "clockTime d hhmm = getTime d (''2000-01-01T'' @ hhmm)"

definition flightTime :: "DateApi \<Rightarrow> Flight \<Rightarrow> int option" where
  "flightTime d flight = clockTime d (take 5 (toTimeString d (departureTime flight)))"

text \<open>
  \<open>Array.prototype.sort(cmp)\<close>: a stable sort that places \<open>a\<close> after \<open>b\<close> only when
  \<open>cmp(a, b) > 0\<close>; a comparator result \<open>NaN\<close> counts as 0. A stable sort has one possible
  result for a consistent comparator; it is computed here by insertion from the right.
\<close>

definition nan_as_zero :: "real option \<Rightarrow> real" where
  "nan_as_zero v = (case v of None \<Rightarrow> 0 | Some x \<Rightarrow> x)"

fun sort_insert :: "('a \<Rightarrow> 'a \<Rightarrow> real option) \<Rightarrow> 'a \<Rightarrow> 'a list \<Rightarrow> 'a list" where
  "sort_insert cmp x [] = [x]"
| "sort_insert cmp x (y # ys) =
     (if nan_as_zero (cmp x y) \<le> 0 then x # y # ys else y # sort_insert cmp x ys)"

definition array_sort :: "('a \<Rightarrow> 'a \<Rightarrow> real option) \<Rightarrow> 'a list \<Rightarrow> 'a list" where
  "array_sort cmp xs = foldr (sort_insert cmp) xs []"

definition flightDuration :: "DateApi \<Rightarrow> Flight \<Rightarrow> int option" where
  "flightDuration d flight =
     num_sub (getTime d (arrivalTime flight)) (getTime d (departureTime flight))"

text \<open>The comparators; \<open>None\<close> is the result \<open>NaN\<close>.\<close>

definition sortFunctions ::
  "DateApi \<Rightarrow> Filters \<Rightarrow> SortBy \<Rightarrow> Flight \<Rightarrow> Flight \<Rightarrow> real option" where
  "sortFunctions d filters key a b =
     (case key of
        ByPrice \<Rightarrow> Some (classPrice (seatClass filters) a - classPrice (seatClass filters) b)
      | ByDeparture \<Rightarrow>
          map_option real_of_int
            (num_sub (getTime d (departureTime a)) (getTime d (departureTime b)))
      | ByDuration \<Rightarrow>
          map_option real_of_int (num_sub (flightDuration d a) (flightDuration d b)))"

definition getFilteredResults ::
  "DateApi \<Rightarrow> Filters \<Rightarrow> FlightSearchResult option \<Rightarrow> FlightSearchResult option" where
  "getFilteredResults d filters searchResults =
     (case searchResults of
        None \<Rightarrow> None
      | Some sr \<Rightarrow>
          let direct0 = directFlights sr;
              transit0 = transitFlights sr;
              direct1 =
                (if maxPrice filters > 0
                 then filter (\<lambda>flight. classPrice (seatClass filters) flight \<le> maxPrice filters)
                        direct0
                 else direct0);
              transit1 =
                (if maxPrice filters > 0
                 then filter (\<lambda>option. totalPrice option \<le> maxPrice filters) transit0
                 else transit0);
              direct2 =
                (if seatClass filters \<noteq> None
                 then filter (\<lambda>flight. classAvailableSeats (seatClass filters) flight > 0)
                        direct1
                 else direct1);
              direct3 =
                (if rangeStart (departureTimeRange filters) \<noteq> []
                    \<and> rangeEnd (departureTimeRange filters) \<noteq> []
                 then
                   let startTime = clockTime d (rangeStart (departureTimeRange filters));
                       endTime = clockTime d (rangeEnd (departureTimeRange filters))
                   in filter (\<lambda>flight. num_le startTime (flightTime d flight)
                                       \<and> num_le (flightTime d flight) endTime) direct2
                 else direct2)
          in Some \<lparr>directFlights = array_sort (sortFunctions d filters (sortBy filters)) direct3,
                   transitFlights =
                     filter (\<lambda>option. int (length (optionFlights option)) - 1 \<le> maxStops filters)
                       transit1\<rparr>)"

section \<open>ApiService (services/api.ts)\<close>

text \<open>
  The part of the browser the services touch: \<open>localStorage\<close>,
  \<open>window.location.pathname\<close>, and the redirect timers that the 401 handler has set
  and that have not fired yet.
\<close>

record browser =
  localStorage :: "string \<rightharpoonup> string"
  pathname :: string
  pendingRedirects :: nat

datatype http_method = GET | POST | PUT | PATCH | DELETE

text \<open>
  The Axios request configuration: method, URL, headers, the body or query parameters,
  and the \<open>_retry\<close> mark that the response interceptor sets.
\<close>

record request_config =
  requestMethod :: http_method
  requestUrl :: string
  requestHeaders :: "string \<rightharpoonup> string"
  requestPayload :: "json option"
  retryMark :: bool

text \<open>
  What the HTTP adapter gives back for one request: a response Axios accepts, with its
  typed body, or an Axios error.
\<close>

datatype 'a http_outcome = Fulfilled 'a | Failed AxiosError

definition setAuthToken :: "string \<Rightarrow> browser \<Rightarrow> browser" where
  "setAuthToken t w = w\<lparr>localStorage := (localStorage w)(''auth_token'' \<mapsto> t)\<rparr>"

definition removeAuthToken :: "browser \<Rightarrow> browser" where
  "removeAuthToken w =
     w\<lparr>localStorage := (localStorage w)(''auth_token'' := None, ''user_data'' := None)\<rparr>"

definition getAuthToken :: "browser \<Rightarrow> string option" where
  "getAuthToken w = localStorage w ''auth_token''"

text \<open>The request interceptor: \<open>if (token)\<close> holds for a stored, non-empty string.\<close>

definition request_interceptor :: "browser \<Rightarrow> request_config \<Rightarrow> request_config" where
  "request_interceptor w config =
     (case localStorage w ''auth_token'' of
        None \<Rightarrow> config
      | Some t \<Rightarrow>
          if t \<noteq> []
          then config\<lparr>requestHeaders := (requestHeaders config)(''Authorization'' \<mapsto> ''Bearer '' @ t)\<rparr>
          else config)"

text \<open>
  The error branch of the response interceptor. It returns the marked request and the
  browser; the caller then rejects with the same error. The timer's callback is
  \<open>fire_redirect\<close>.
\<close>

definition response_error_interceptor ::
  "AxiosError \<Rightarrow> request_config \<Rightarrow> browser \<Rightarrow> request_config \<times> browser" where
  "response_error_interceptor error originalRequest w =
     (if map_option responseStatus (errorResponse error) = Some 401
         \<and> \<not> retryMark originalRequest
      then
        (originalRequest\<lparr>retryMark := True\<rparr>,
         if pathname w \<noteq> ''/login'' \<and> pathname w \<noteq> ''/register''
         then (removeAuthToken w)\<lparr>pendingRedirects := pendingRedirects w + 1\<rparr>
         else w)
      else (originalRequest, w))"

definition fire_redirect :: "browser \<Rightarrow> browser" where
  "fire_redirect w =
     (let w1 = w\<lparr>pendingRedirects := pendingRedirects w - 1\<rparr>
      in if pathname w1 \<noteq> ''/login'' then w1\<lparr>pathname := ''/login''\<rparr> else w1)"

definition handleError :: "AxiosError \<Rightarrow> thrown" where
  "handleError error =
     (case errorResponse error of
        Some response \<Rightarrow>
          (case responseData response of
             JNull \<Rightarrow> TypeError
           | body \<Rightarrow>
               Threw \<lparr>code = ''HTTP_'' @ string_of_nat (responseStatus response),
                      appMessage =
                        (case js_or (js_or (property body ''message'') (property body ''error''))
                                (Some (JStr ''An error occurred'')) of
                           Some m \<Rightarrow> m
                         | None \<Rightarrow> JStr ''An error occurred''),
                      details = OfData body\<rparr>)
      | None \<Rightarrow>
          if errorRequest error
          then Threw \<lparr>code = ''NETWORK_ERROR'',
                      appMessage = JStr ''Network error. Please check your connection.'',
                      details = OfRequest\<rparr>
          else Threw \<lparr>code = ''UNKNOWN_ERROR'',
                      appMessage =
                        (case errorMessage error of
                           Some m \<Rightarrow> if m \<noteq> [] then JStr m else JStr ''An unknown error occurred''
                         | None \<Rightarrow> JStr ''An unknown error occurred''),
                      details = OfError error\<rparr>)"

text \<open>
  One call through the Axios instance: the request interceptor, the adapter, and on
  failure the response interceptor followed by the method's \<open>catch\<close>. \<open>sent\<close> lists the
  requests handed to the adapter, \<open>settled\<close> is the request object as the interceptors
  left it.
\<close>

record 'a call_result =
  outcome :: "thrown + 'a"
  browserAfter :: browser
  sent :: "request_config list"
  settled :: request_config

definition api_request ::
  "(request_config \<Rightarrow> 'a http_outcome) \<Rightarrow> http_method \<Rightarrow> string \<Rightarrow> json option
     \<Rightarrow> browser \<Rightarrow> 'a call_result" where
  "api_request adapter m url payload w =
     (let config = request_interceptor w
            \<lparr>requestMethod = m, requestUrl = url,
             requestHeaders = [''Content-Type'' \<mapsto> ''application/json''],
             requestPayload = payload, retryMark = False\<rparr>
      in case adapter config of
           Fulfilled body \<Rightarrow>
             \<lparr>outcome = Inr body, browserAfter = w, sent = [config], settled = config\<rparr>
         | Failed error \<Rightarrow>
             (case response_error_interceptor error config w of
                (config', w') \<Rightarrow>
                  \<lparr>outcome = Inl (handleError error), browserAfter = w',
                   sent = [config], settled = config'\<rparr>))"

definition api_get ::
  "(request_config \<Rightarrow> 'a http_outcome) \<Rightarrow> string \<Rightarrow> json option \<Rightarrow> browser \<Rightarrow> 'a call_result" where
  "api_get adapter url params w = api_request adapter GET url params w"

definition api_getPaginated ::
  "(request_config \<Rightarrow> 'a http_outcome) \<Rightarrow> string \<Rightarrow> json option \<Rightarrow> browser \<Rightarrow> 'a call_result" where
  "api_getPaginated adapter url params w = api_request adapter GET url params w"

definition api_post ::
  "(request_config \<Rightarrow> 'a http_outcome) \<Rightarrow> string \<Rightarrow> json option \<Rightarrow> browser \<Rightarrow> 'a call_result" where
  "api_post adapter url body w = api_request adapter POST url body w"

definition api_put ::
  "(request_config \<Rightarrow> 'a http_outcome) \<Rightarrow> string \<Rightarrow> json option \<Rightarrow> browser \<Rightarrow> 'a call_result" where
  "api_put adapter url body w = api_request adapter PUT url body w"

definition api_patch ::
  "(request_config \<Rightarrow> 'a http_outcome) \<Rightarrow> string \<Rightarrow> json option \<Rightarrow> browser \<Rightarrow> 'a call_result" where
  "api_patch adapter url body w = api_request adapter PATCH url body w"

definition api_delete ::
  "(request_config \<Rightarrow> 'a http_outcome) \<Rightarrow> string \<Rightarrow> browser \<Rightarrow> 'a call_result" where
  "api_delete adapter url w = api_request adapter DELETE url None w"

section \<open>AuthService (services/authService.ts)\<close>

text \<open>
  The \<open>JSON\<close> object, as parameters: \<open>parse s\<close> is \<open>None\<close> where \<open>JSON.parse(s)\<close> throws.
\<close>

record JsonApi =
  parse :: "string \<Rightarrow> json option"
  stringify :: "json \<Rightarrow> string"

text \<open>
  The body of a login answer. TypeScript declares \<open>token: string\<close>, but nothing checks
  the JSON that arrives: \<open>loginToken\<close> is \<open>None\<close> when the field is \<open>null\<close>.
\<close>

record LoginResponse =
  loginToken :: "string option"
  loginUserId :: int
  loginUsername :: string
  loginFirstName :: string
  loginLastName :: string
  loginEmail :: string
  loginRole :: string
  loginSuccess :: bool
  loginMessage :: string

definition json_of_login :: "LoginResponse \<Rightarrow> json" where
  "json_of_login r =
     JObj [(''token'', (case loginToken r of None \<Rightarrow> JNull | Some t \<Rightarrow> JStr t)),
           (''userId'', JNum (real_of_int (loginUserId r))),
           (''username'', JStr (loginUsername r)), (''firstName'', JStr (loginFirstName r)),
           (''lastName'', JStr (loginLastName r)), (''email'', JStr (loginEmail r)),
           (''role'', JStr (loginRole r)), (''success'', JBool (loginSuccess r)),
           (''message'', JStr (loginMessage r))]"

text \<open>\<open>localStorage.setItem\<close> stores the string form of its argument: \<open>null\<close> for null.\<close>

definition storage_string :: "string option \<Rightarrow> string" where
  "storage_string v = (case v of None \<Rightarrow> ''null'' | Some t \<Rightarrow> t)"

text \<open>\<open>response.success && response.data\<close> for a body that is a user object.\<close>

definition has_data :: "json ApiResponse \<Rightarrow> bool" where
  "has_data response =
     (success response \<and> (case data response of None \<Rightarrow> False | Some v \<Rightarrow> truthy v))"

definition the_data :: "json ApiResponse \<Rightarrow> json" where
  "the_data response = (case data response of None \<Rightarrow> JNull | Some v \<Rightarrow> v)"

definition setItem :: "string \<Rightarrow> string \<Rightarrow> browser \<Rightarrow> browser" where
  "setItem k v w = w\<lparr>localStorage := (localStorage w)(k \<mapsto> v)\<rparr>"

definition removeItem :: "string \<Rightarrow> browser \<Rightarrow> browser" where
  "removeItem k w = w\<lparr>localStorage := (localStorage w)(k := None)\<rparr>"

text \<open>
  \<open>authService.login\<close>: a rejection of the POST is rethrown; a successful response
  with data stores the token and the serialised data.
\<close>

definition authService_login ::
  "JsonApi \<Rightarrow> (request_config \<Rightarrow> LoginResponse ApiResponse http_outcome) \<Rightarrow> json
     \<Rightarrow> browser \<Rightarrow> (thrown + LoginResponse ApiResponse) \<times> browser" where
  "authService_login j adapter credentials w =
     (let r = api_post adapter ''/auth/login'' (Some credentials) w
      in case outcome r of
           Inl e \<Rightarrow> (Inl e, browserAfter r)
         | Inr response \<Rightarrow>
             (case data response of
                Some d \<Rightarrow>
                  if success response
                  then (Inr response,
                        setItem ''user_data'' (stringify j (json_of_login d))
                          (setAuthToken (storage_string (loginToken d)) (browserAfter r)))
                  else (Inr response, browserAfter r)
              | None \<Rightarrow> (Inr response, browserAfter r)))"

text \<open>
  \<open>authService.logout\<close>: the POST's rejection is caught and logged, and the
  \<open>finally\<close> block clears the storage; the promise always resolves.
\<close>

definition authService_logout ::
  "(request_config \<Rightarrow> unit ApiResponse http_outcome) \<Rightarrow> browser \<Rightarrow> (thrown + unit) \<times> browser" where
  "authService_logout adapter w =
     (let r = api_post adapter ''/auth/logout'' None w
      in case outcome r of
           Inl e \<Rightarrow> (Inr (), removeAuthToken (browserAfter r))
         | Inr response \<Rightarrow> (Inr (), removeAuthToken (browserAfter r)))"

definition getCurrentUser ::
  "(request_config \<Rightarrow> json ApiResponse http_outcome) \<Rightarrow> browser \<Rightarrow> json ApiResponse call_result" where
  "getCurrentUser adapter w = api_get adapter ''/auth/me'' None w"

text \<open>
  \<open>getStoredUser\<close>. \<open>typeof v === 'object'\<close> holds for objects and arrays (and for
  null, which the truthiness test before it excludes). The result \<open>JNull\<close> is \<open>null\<close>.
\<close>

fun typeof_object :: "json \<Rightarrow> bool" where
  "typeof_object JNull = True"
| "typeof_object (JArr xs) = True"
| "typeof_object (JObj kvs) = True"
| "typeof_object v = False"

definition valid_user :: "json \<Rightarrow> bool" where
  "valid_user parsedUser =
     (truthy parsedUser \<and> typeof_object parsedUser \<and> truthy_prop parsedUser ''id''
      \<and> truthy_prop parsedUser ''username'' \<and> truthy_prop parsedUser ''email'')"

definition getStoredUser :: "JsonApi \<Rightarrow> browser \<Rightarrow> json \<times> browser" where
  "getStoredUser j w =
     (case localStorage w ''user_data'' of
        None \<Rightarrow> (JNull, w)
      | Some userData \<Rightarrow>
          if userData = [] then (JNull, w)
          else
            (case parse j userData of
               None \<Rightarrow> (JNull, removeItem ''user_data'' w)
             | Some parsedUser \<Rightarrow>
                 if valid_user parsedUser then (parsedUser, w)
                 else (JNull, removeItem ''user_data'' w)))"

section \<open>AuthContext (contexts/AuthContext.tsx)\<close>

text \<open>The user is the object as stored or received; \<open>JNull\<close> is \<open>null\<close>.\<close>

record AuthState =
  user :: json
  token :: "string option"
  isAuthenticated :: bool
  isLoading :: bool

definition initialAuthState :: AuthState where
  "initialAuthState = \<lparr>user = JNull, token = None, isAuthenticated = False, isLoading = True\<rparr>"

definition loggedOut :: AuthState where
  "loggedOut = \<lparr>user = JNull, token = None, isAuthenticated = False, isLoading = False\<rparr>"

text \<open>
  The calls of \<open>setAuthState\<close> that occur in the provider: a whole new state, or an
  updater \<open>prev => ({ ...prev, isLoading })\<close> or \<open>prev => ({ ...prev, user })\<close>.
\<close>

datatype auth_update = Replace AuthState | PatchLoading bool | PatchUser json

fun apply_update :: "auth_update \<Rightarrow> AuthState \<Rightarrow> AuthState" where
  "apply_update (Replace s) prev = s"
| "apply_update (PatchLoading b) prev = prev\<lparr>isLoading := b\<rparr>"
| "apply_update (PatchUser u) prev = prev\<lparr>user := u\<rparr>"

definition run_updates :: "auth_update list \<Rightarrow> AuthState \<Rightarrow> AuthState" where
  "run_updates us s = foldl (\<lambda>prev u. apply_update u prev) s us"

text \<open>
  Each operation yields the state updates it issues, in order, and the browser it
  leaves behind. Reading the token and the stored user cannot throw, so the outer
  \<open>catch\<close> of \<open>initializeAuth\<close>, which would set the logged-out state, is never
  entered. \<open>login\<close> copies \<open>response.data.token\<close> into the state as it is.
\<close>

definition initializeAuth ::
  "JsonApi \<Rightarrow> (request_config \<Rightarrow> json ApiResponse http_outcome) \<Rightarrow> browser
     \<Rightarrow> auth_update list \<times> browser" where
  "initializeAuth j adapter w =
     (case getStoredUser j w of
        (storedUser, w1) \<Rightarrow>
          (case getAuthToken w of
             Some t \<Rightarrow>
               if t \<noteq> [] \<and> truthy storedUser then
                 (let verifying = Replace \<lparr>user = storedUser, token = Some t,
                                           isAuthenticated = True, isLoading = True\<rparr>;
                      r = getCurrentUser adapter w1
                  in case outcome r of
                       Inr response \<Rightarrow>
                         if has_data response
                         then ([verifying,
                                Replace \<lparr>user = the_data response, token = Some t,
                                         isAuthenticated = True, isLoading = False\<rparr>],
                               setItem ''user_data'' (stringify j (the_data response))
                                 (browserAfter r))
                         else ([verifying, Replace loggedOut], removeAuthToken (browserAfter r))
                     | Inl e \<Rightarrow>
                         ([verifying,
                           Replace \<lparr>user = storedUser, token = Some t,
                                    isAuthenticated = True, isLoading = False\<rparr>],
                          browserAfter r))
               else ([PatchLoading False], w1)
           | None \<Rightarrow> ([PatchLoading False], w1)))"

definition login ::
  "JsonApi \<Rightarrow> (request_config \<Rightarrow> LoginResponse ApiResponse http_outcome) \<Rightarrow> json
     \<Rightarrow> browser \<Rightarrow> (auth_update list \<times> browser) \<times> bool" where
  "login j adapter credentials w =
     (case authService_login j adapter credentials w of
        (Inl e, w1) \<Rightarrow> (([PatchLoading True, PatchLoading False], w1), False)
      | (Inr response, w1) \<Rightarrow>
          (case data response of
             Some d \<Rightarrow>
               if success response
               then (([PatchLoading True,
                       Replace \<lparr>user = JObj [(''id'', JNum (real_of_int (loginUserId d))),
                                              (''username'', JStr (loginUsername d)),
                                              (''firstName'', JStr (loginFirstName d)),
                                              (''lastName'', JStr (loginLastName d)),
                                              (''email'', JStr (loginEmail d)),
                                              (''role'', JStr (loginRole d))],
                                token = loginToken d,
                                isAuthenticated = True, isLoading = False\<rparr>], w1), True)
               else (([PatchLoading True, PatchLoading False], w1), False)
           | None \<Rightarrow> (([PatchLoading True, PatchLoading False], w1), False)))"

definition logout ::
  "(request_config \<Rightarrow> unit ApiResponse http_outcome) \<Rightarrow> browser \<Rightarrow> auth_update list \<times> browser" where
  "logout adapter w =
     (case authService_logout adapter w of
        (Inr u, w1) \<Rightarrow> ([Replace loggedOut], w1)
      | (Inl e, w1) \<Rightarrow> ([Replace loggedOut], w1))"

definition refreshUser ::
  "JsonApi \<Rightarrow> (request_config \<Rightarrow> json ApiResponse http_outcome) \<Rightarrow> browser
     \<Rightarrow> auth_update list \<times> browser" where
  "refreshUser j adapter w =
     (let r = getCurrentUser adapter w
      in case outcome r of
           Inr response \<Rightarrow>
             if has_data response
             then ([PatchUser (the_data response)],
                   setItem ''user_data'' (stringify j (the_data response)) (browserAfter r))
             else ([], browserAfter r)
         | Inl e \<Rightarrow> ([], browserAfter r))"

text \<open>
  The states the provider can expose: the initial one, and any state reached by applying
  an update that one of the four operations issues. The operations are asynchronous, so
  their updates may interleave; each update is applied to whatever state is current.
\<close>

inductive exposed :: "AuthState \<Rightarrow> bool" where
  exposed_initial: "exposed initialAuthState"
| exposed_initializeAuth:
    "exposed s \<Longrightarrow> u \<in> set (fst (initializeAuth j adapter w)) \<Longrightarrow> exposed (apply_update u s)"
| exposed_login:
    "exposed s \<Longrightarrow> u \<in> set (fst (fst (login j adapter' credentials w)))
       \<Longrightarrow> exposed (apply_update u s)"
| exposed_logout:
    "exposed s \<Longrightarrow> u \<in> set (fst (logout adapter'' w)) \<Longrightarrow> exposed (apply_update u s)"
| exposed_refreshUser:
    "exposed s \<Longrightarrow> u \<in> set (fst (refreshUser j adapter w)) \<Longrightarrow> exposed (apply_update u s)"

section \<open>AirplaneManagementPage: the add form\<close>








section \<open>BookingPage: the Book button\<close>










section \<open>Sample data\<close>

text \<open>
  A \<open>Date\<close> environment one hour east of UTC. Its \<open>parseOther\<close> reads timestamps
  \<open>YYYY-MM-DDTHH:MM:SS\<close> (19 characters) as UTC, counting milliseconds from the start of
  the month, and rejects every other string. Then four flights, one with a departure
  that is no timestamp.
\<close>

definition iso_minutes :: "string \<Rightarrow> nat" where
  "iso_minutes s =
     1440 * nat_of_string (take 2 (drop 8 s))
     + 60 * nat_of_string (take 2 (drop 11 s))
     + nat_of_string (take 2 (drop 14 s))"

definition demo_date :: DateApi where
  "demo_date =
     \<lparr>parseOther = (\<lambda>s. if length s = 19 then Some (60000 * int (iso_minutes s)) else None),
      tzOffset = (\<lambda>t. 60), tzOffset2000 = 60, zoneName = (\<lambda>t. '' GMT+0100'')\<rparr>"

definition demo_flight ::
  "string \<Rightarrow> string \<Rightarrow> string \<Rightarrow> real \<Rightarrow> real \<Rightarrow> real \<Rightarrow> int \<Rightarrow> int \<Rightarrow> int \<Rightarrow> Flight" where
  "demo_flight i dep arr pf pb pe sf sb se =
     \<lparr>flightId = i, flightNumber = i,
      airplane = \<lparr>firstClassCapacity = 3, businessClassCapacity = 2, economyClassCapacity = 4\<rparr>,
      departureTime = dep, arrivalTime = arr, status = SCHEDULED,
      firstClassPrice = pf, businessClassPrice = pb, economyClassPrice = pe,
      availableFirstClassSeats = sf, availableBusinessClassSeats = sb,
      availableEconomyClassSeats = se\<rparr>"

definition flightA :: Flight where
  "flightA = demo_flight ''FL1'' ''2024-05-01T09:30:00'' ''2024-05-01T11:00:00'' 500 300 120 2 0 10"

definition flightB :: Flight where
  "flightB = demo_flight ''FL2'' ''2024-05-01T07:15:00'' ''2024-05-01T12:15:00'' 450 250 90 1 5 0"

definition flightC :: Flight where
  "flightC = demo_flight ''FL3'' ''2024-05-01T22:00:00'' ''2024-05-01T23:00:00'' 900 700 300 4 4 4"

definition flightBad :: Flight where
  "flightBad = demo_flight ''FL9'' ''soon'' ''2024-05-01T23:00:00'' 100 100 100 1 1 1"

definition demo_dialog :: dialog_state where
  "demo_dialog = \<lparr>flights = [flightA, flightB], availableSeats = [], bookedSeats = []\<rparr>"

definition demo_booked :: "string list ApiResponse" where
  "demo_booked = \<lparr>success = True, data = Some [''E2''], message = None\<rparr>"

definition demo_filters :: Filters where
  "demo_filters = \<lparr>maxPrice = 1000, seatClass = Some BUSINESS,
     departureTimeRange = \<lparr>rangeStart = ''06:00'', rangeEnd = ''12:00''\<rparr>,
     airlines = [], maxStops = 1, sortBy = ByPrice\<rparr>"

definition demo_option :: "string \<Rightarrow> real \<Rightarrow> Flight list \<Rightarrow> TransitFlightOption" where
  "demo_option i p fs = \<lparr>optionId = i, totalDuration = 0, totalPrice = p, optionFlights = fs\<rparr>"

definition demo_results :: FlightSearchResult where
  "demo_results = \<lparr>directFlights = [flightA, flightB, flightC],
     transitFlights = [demo_option ''T1'' 350 [flightA, flightB],
                        demo_option ''T2'' 380 [flightA, flightB, flightC],
                        demo_option ''T3'' 900 [flightA]]\<rparr>"

definition demo_filters_departure :: Filters where
  "demo_filters_departure = demo_filters\<lparr>seatClass := None, sortBy := ByDeparture\<rparr>"



text \<open>
  Browsers with a stored session, on the search page and on the login page, one whose
  token is the empty string and one whose user data is the empty string; an adapter that
  answers 401, one that answers 500 with the body \<open>null\<close>, and one that accepts.
\<close>

definition demo_user_text :: string where
  "demo_user_text = ''{\"id\":7,\"username\":\"ada\",\"email\":\"ada@example.org\"}''"

definition demo_user :: json where
  "demo_user = JObj [(''id'', JNum 7), (''username'', JStr ''ada''),
                     (''email'', JStr ''ada@example.org'')]"

definition demo_json :: JsonApi where
  "demo_json = \<lparr>parse = (\<lambda>s. if s = demo_user_text then Some demo_user
                               else if s = ''null'' then Some JNull else None),
                 stringify = (\<lambda>v. if v = demo_user then demo_user_text else ''null'')\<rparr>"

definition demo_browser :: browser where
  "demo_browser = \<lparr>localStorage = [''auth_token'' \<mapsto> ''tok123'', ''user_data'' \<mapsto> demo_user_text],
                    pathname = ''/search'', pendingRedirects = 0\<rparr>"

definition demo_browser_login :: browser where
  "demo_browser_login = demo_browser\<lparr>pathname := ''/login''\<rparr>"

definition demo_browser_empty_token :: browser where
  "demo_browser_empty_token =
     \<lparr>localStorage = [''auth_token'' \<mapsto> []], pathname = ''/search'', pendingRedirects = 0\<rparr>"

definition demo_browser_empty_user :: browser where
  "demo_browser_empty_user =
     \<lparr>localStorage = [''user_data'' \<mapsto> []], pathname = ''/search'', pendingRedirects = 0\<rparr>"

definition demo_error_401 :: AxiosError where
  "demo_error_401 =
     \<lparr>errorResponse = Some \<lparr>responseStatus = 401,
                               responseData = JObj [(''message'', JStr ''Token expired'')]\<rparr>,
      errorRequest = True,
      errorMessage = Some ''Request failed with status code 401''\<rparr>"

definition demo_error_null_body :: AxiosError where
  "demo_error_null_body =
     \<lparr>errorResponse = Some \<lparr>responseStatus = 500, responseData = JNull\<rparr>,
      errorRequest = True,
      errorMessage = Some ''Request failed with status code 500''\<rparr>"

definition demo_unauthorized :: "request_config \<Rightarrow> unit ApiResponse http_outcome" where
  "demo_unauthorized config = Failed demo_error_401"

definition demo_null_body :: "request_config \<Rightarrow> unit ApiResponse http_outcome" where
  "demo_null_body config = Failed demo_error_null_body"

definition demo_accepting :: "request_config \<Rightarrow> unit ApiResponse http_outcome" where
  "demo_accepting config = Fulfilled \<lparr>success = True, data = None, message = None\<rparr>"

definition demo_login_response :: LoginResponse where
  "demo_login_response =
     \<lparr>loginToken = Some ''tok123'', loginUserId = 7, loginUsername = ''ada'',
      loginFirstName = ''Ada'', loginLastName = ''Lovelace'',
      loginEmail = ''ada@example.org'', loginRole = ''CUSTOMER'',
      loginSuccess = True, loginMessage = ''Login successful''\<rparr>"

definition demo_login_adapter :: "request_config \<Rightarrow> LoginResponse ApiResponse http_outcome" where
  "demo_login_adapter config =
     Fulfilled \<lparr>success = True, data = Some demo_login_response, message = None\<rparr>"

text \<open>The same answer with \<open>token: null\<close>, and the state \<open>login\<close> builds from it.\<close>

definition demo_login_adapter_no_token ::
  "request_config \<Rightarrow> LoginResponse ApiResponse http_outcome" where
  "demo_login_adapter_no_token config =
     Fulfilled \<lparr>success = True, data = Some (demo_login_response\<lparr>loginToken := None\<rparr>),
                message = None\<rparr>"

definition demo_user_object :: json where
  "demo_user_object =
     JObj [(''id'', JNum 7), (''username'', JStr ''ada''), (''firstName'', JStr ''Ada''),
           (''lastName'', JStr ''Lovelace''), (''email'', JStr ''ada@example.org''),
           (''role'', JStr ''CUSTOMER'')]"

definition demo_logged_in_no_token :: AuthState where
  "demo_logged_in_no_token =
     \<lparr>user = demo_user_object, token = None, isAuthenticated = True, isLoading = False\<rparr>"





section \<open>Seat map: properties\<close>

lemma nat_of_string_snoc:
  "nat_of_string (s @ [c]) = 10 * nat_of_string s + digit_val c"
  by (simp add: nat_of_string_def)

lemma digit_val_digit_char: "d < 10 \<Longrightarrow> digit_val (digit_char d) = d"
proof -
  assume "d < 10"
  then have "d \<in> {0, 1, 2, 3, 4, 5, 6, 7, 8, 9}" by auto
  then show ?thesis
    by (auto simp: digit_val_def digit_char_def)
qed

lemma nat_of_string_of_nat: "nat_of_string (string_of_nat n) = n"
proof (induction n rule: string_of_nat.induct)
  case (1 n)
  show ?case
  proof (cases "n < 10")
    case True
    then show ?thesis
      by (simp add: string_of_nat.simps [of n] nat_of_string_def digit_val_digit_char)
  next
    case False
    with 1 show ?thesis
      by (simp add: string_of_nat.simps [of n] nat_of_string_snoc digit_val_digit_char)
  qed
qed

lemma string_of_nat_inj: "string_of_nat m = string_of_nat n \<Longrightarrow> m = n"
  by (metis nat_of_string_of_nat)

lemma allSeats_eq:
  "allSeats c flight =
     map (\<lambda>k. seatPrefix c @ string_of_nat k) [1..<Suc (nat (classCapacity c flight))]"
proof -
  have "map (\<lambda>k. seatPrefix c @ string_of_nat k) [Suc 0..<Suc n] =
        map (\<lambda>i. seatPrefix c @ string_of_nat (i + 1)) [0..<n]" for n
    by (induction n) simp_all
  then show ?thesis
    by (simp add: allSeats_def array_from_def)
qed

text \<open>
  C1. When the booked-seat request resolves successfully with the list \<open>B\<close> and the
  flight is among the loaded flights, the generated seat list is exactly
  \<open>P1, P2, ..., Pn\<close> in ascending order, where \<open>n\<close> is the airplane's capacity in the
  chosen class and \<open>P\<close> is F, B or E for FIRST, BUSINESS or ECONOMY; the booked seats
  become \<open>B\<close> and the available seats become the generated seats not in \<open>B\<close>, in the
  same order.
\<close>

theorem loadAvailableSeats_seat_map:
  assumes "success response"
    and "List.find (\<lambda>f. flightId f = fid) (flights st) = Some flight"
    and "B = data_or_empty response"
    and "n = (case c of FIRST \<Rightarrow> firstClassCapacity (airplane flight)
                | BUSINESS \<Rightarrow> businessClassCapacity (airplane flight)
                | ECONOMY \<Rightarrow> economyClassCapacity (airplane flight))"
    and "P = (case c of FIRST \<Rightarrow> ''F'' | BUSINESS \<Rightarrow> ''B'' | ECONOMY \<Rightarrow> ''E'')"
  shows "allSeats c flight = map (\<lambda>k. P @ string_of_nat k) [1..<Suc (nat n)]
       \<and> availableSeats (loadAvailableSeats fid c (Resolved response) st)
           = filter (\<lambda>seat. seat \<notin> set B) (allSeats c flight)
       \<and> bookedSeats (loadAvailableSeats fid c (Resolved response) st) = B"
proof -
  have cap: "classCapacity c flight = n"
    using assms(4) by (cases c) (simp_all add: classCapacity_def)
  have pre: "seatPrefix c = P"
    using assms(5) by (cases c) (simp_all add: seatPrefix_def)
  have "allSeats c flight = map (\<lambda>k. P @ string_of_nat k) [1..<Suc (nat n)]"
    using allSeats_eq [of c flight] cap pre by simp
  moreover have "availableSeats (loadAvailableSeats fid c (Resolved response) st)
           = filter (\<lambda>seat. seat \<notin> set B) (allSeats c flight)"
    using assms(1,2,3) by (simp add: loadAvailableSeats_def Let_def)
  moreover have "bookedSeats (loadAvailableSeats fid c (Resolved response) st) = B"
    using assms(1,2,3) by (simp add: loadAvailableSeats_def Let_def)
  ultimately show ?thesis by simp
qed

lemma string_of_nat_small:
  "string_of_nat (Suc 0) = ''1''" "string_of_nat 2 = ''2''"
  "string_of_nat 3 = ''3''" "string_of_nat 4 = ''4''"
  by (simp_all add: string_of_nat.simps digit_char_def)

theorem loadAvailableSeats_seat_map_witness:
  "success demo_booked
   \<and> List.find (\<lambda>f. flightId f = ''FL1'') (flights demo_dialog) = Some flightA
   \<and> allSeats ECONOMY flightA = [''E1'', ''E2'', ''E3'', ''E4'']
   \<and> availableSeats (loadAvailableSeats ''FL1'' ECONOMY (Resolved demo_booked) demo_dialog)
       = [''E1'', ''E3'', ''E4'']
   \<and> bookedSeats (loadAvailableSeats ''FL1'' ECONOMY (Resolved demo_booked) demo_dialog)
       = [''E2'']"
proof -
  have h1: "success demo_booked"
    by (simp add: demo_booked_def)
  have h2: "List.find (\<lambda>f. flightId f = ''FL1'') (flights demo_dialog) = Some flightA"
    by (simp add: demo_dialog_def flightA_def flightB_def demo_flight_def)
  have B: "data_or_empty demo_booked = [''E2'']"
    by (simp add: data_or_empty_def demo_booked_def)
  have n: "economyClassCapacity (airplane flightA) = 4"
    by (simp add: flightA_def demo_flight_def)
  have up: "[Suc 0..<5] = [Suc 0, 2, 3, 4]"
    by (simp add: upt_rec)
  from loadAvailableSeats_seat_map [OF h1 h2 refl refl refl, of ECONOMY]
  show ?thesis
    using h1 h2 by (simp add: B n up string_of_nat_small)
qed

section \<open>The Date object: properties\<close>

lemma digit_char_is_digit: "d < 10 \<Longrightarrow> is_digit (digit_char d)"
proof -
  assume "d < 10"
  then have "d \<in> {0, 1, 2, 3, 4, 5, 6, 7, 8, 9}" by auto
  then show ?thesis
    by (auto simp: is_digit_def digit_char_def)
qed

lemma two_digits_pad2:
  assumes "n < 100"
  shows "two_digits (digit_char (n div 10)) (digit_char (n mod 10)) = Some n"
proof -
  from assms have "n div 10 < 10" and "n mod 10 < 10" by auto
  then show ?thesis
    by (simp add: two_digits_def digit_char_is_digit digit_val_digit_char)
qed

lemma parse_hhmm_pad2:
  assumes "h < 24" and "m < 60"
  shows "parse_hhmm (pad2 h @ '':'' @ pad2 m) = Clock (60 * h + m)"
  using assms by (simp add: parse_hhmm_def pad2_def two_digits_pad2)

lemma after_prefix_append: "after_prefix p (p @ x) = Some x"
  by (induction p) simp_all

lemma clockTime_pad2:
  assumes "h < 24" and "m < 60"
  shows "clockTime d (pad2 h @ '':'' @ pad2 m) =
           Some (946684800000 + (int (60 * h + m) - tzOffset2000 d) * 60000)"
  unfolding clockTime_def getTime_def
  by (simp only: after_prefix_append parse_hhmm_pad2 [OF assms] option.case clock.case)

lemma parse_hhmm_Inval: "parse_hhmm ''Inval'' = NotClock"
  by (simp add: parse_hhmm_def two_digits_def is_digit_def)

lemma flightTime_invalid:
  assumes "getTime d (departureTime flight) = None"
  shows "flightTime d flight = None"
  using assms
  by (simp add: flightTime_def clockTime_def toTimeString_def getTime_def parse_hhmm_Inval)

lemma flightTime_valid:
  assumes "getTime d (departureTime flight) = Some t"
  shows "flightTime d flight =
           Some (946684800000 + ((t div 60000 + tzOffset d t) mod 1440 - tzOffset2000 d) * 60000)"
proof -
  define M where "M = nat ((t div 60000 + tzOffset d t) mod 1440)"
  have M: "int M = (t div 60000 + tzOffset d t) mod 1440" and "M < 1440"
    by (simp_all add: M_def nat_less_iff)
  then have hm: "M div 60 < 24" "M mod 60 < 60" by auto
  have "take 5 (toTimeString d (departureTime flight)) = pad2 (M div 60) @ '':'' @ pad2 (M mod 60)"
    using assms by (simp add: toTimeString_def Let_def M_def [symmetric]) (simp add: pad2_def)
  then have "flightTime d flight = clockTime d (pad2 (M div 60) @ '':'' @ pad2 (M mod 60))"
    by (simp add: flightTime_def)
  also have "\<dots> = Some (946684800000 + (int (60 * (M div 60) + M mod 60) - tzOffset2000 d) * 60000)"
    by (rule clockTime_pad2 [OF hm])
  also have "int (60 * (M div 60) + M mod 60) = (t div 60000 + tzOffset d t) mod 1440"
    using M by simp
  finally show ?thesis .
qed

lemma time_window:
  assumes "h1 < 24" "m1 < 60" "h2 < 24" "m2 < 60"
  shows "(num_le (clockTime d (pad2 h1 @ '':'' @ pad2 m1)) (flightTime d flight)
          \<and> num_le (flightTime d flight) (clockTime d (pad2 h2 @ '':'' @ pad2 m2)))
         \<longleftrightarrow>
         (\<exists>t. getTime d (departureTime flight) = Some t
            \<and> int (60 * h1 + m1) \<le> (t div 60000 + tzOffset d t) mod 1440
            \<and> (t div 60000 + tzOffset d t) mod 1440 \<le> int (60 * h2 + m2))"
proof (cases "getTime d (departureTime flight)")
  case None
  then show ?thesis
    by (simp add: flightTime_invalid num_le_def)
next
  case (Some t)
  note c1 = clockTime_pad2 [OF assms(1,2), of d] and c2 = clockTime_pad2 [OF assms(3,4), of d]
  from Some show ?thesis
    by (simp only: c1 c2 flightTime_valid num_le_def) auto
qed

section \<open>Search results: properties\<close>

lemma mset_sort_insert: "mset (sort_insert cmp x ys) = add_mset x (mset ys)"
  by (induction ys) simp_all

lemma mset_array_sort: "mset (array_sort cmp xs) = mset xs"
  by (induction xs) (simp_all add: array_sort_def mset_sort_insert)











lemma filter_if: "(if b then filter P xs else xs) = filter (\<lambda>x. b \<longrightarrow> P x) xs"
  by simp

lemma num_le_between:
  "(num_le a b \<and> num_le b c) \<longleftrightarrow>
     (\<exists>ts tf te. a = Some ts \<and> b = Some tf \<and> c = Some te \<and> ts \<le> tf \<and> tf \<le> te)"
  by (cases a; cases b; cases c) (simp_all add: num_le_def)

lemma pad2_not_empty: "pad2 h @ '':'' @ pad2 m \<noteq> []"
  by (simp add: pad2_def)

text \<open>
  C2. For a non-null search result \<open>getFilteredResults\<close> returns a result whose direct
  flights are, up to order, exactly the input's direct flights that pass the active
  predicates, and whose transit options are exactly the input's options, in order, with
  \<open>totalPrice\<close> at most \<open>maxPrice\<close> when \<open>maxPrice > 0\<close> and at most \<open>maxStops\<close> stops;
  nothing is added or altered. The predicates on a direct flight: price in the selected
  class (economy when none is selected) at most \<open>maxPrice\<close> when \<open>maxPrice > 0\<close>; more than
  zero available seats in the selected class when one is selected; and, when both time
  bounds are set, the local time of day of the departure, cut to the minute, between the
  two bounds on the first of January 2000. For bounds \<open>HH:mm\<close> that means: the departure
  is a date, and its minute of the local day is between the minutes of the two bounds,
  both included.
\<close>

theorem getFilteredResults_selection:
  "\<exists>r. getFilteredResults d filters (Some sr) = Some r
     \<and> mset (directFlights r) =
         mset (filter (\<lambda>flight.
                 (maxPrice filters > 0 \<longrightarrow>
                    (case seatClass filters of
                       Some FIRST \<Rightarrow> firstClassPrice flight
                     | Some BUSINESS \<Rightarrow> businessClassPrice flight
                     | Some ECONOMY \<Rightarrow> economyClassPrice flight
                     | None \<Rightarrow> economyClassPrice flight) \<le> maxPrice filters)
               \<and> (\<forall>c. seatClass filters = Some c \<longrightarrow>
                    (case c of
                       FIRST \<Rightarrow> availableFirstClassSeats flight
                     | BUSINESS \<Rightarrow> availableBusinessClassSeats flight
                     | ECONOMY \<Rightarrow> availableEconomyClassSeats flight) > 0)
               \<and> (rangeStart (departureTimeRange filters) \<noteq> []
                    \<and> rangeEnd (departureTimeRange filters) \<noteq> [] \<longrightarrow>
                    (\<exists>ts tf te.
                        getTime d (''2000-01-01T'' @ rangeStart (departureTimeRange filters)) = Some ts
                      \<and> getTime d (''2000-01-01T''
                                      @ take 5 (toTimeString d (departureTime flight))) = Some tf
                      \<and> getTime d (''2000-01-01T'' @ rangeEnd (departureTimeRange filters)) = Some te
                      \<and> ts \<le> tf \<and> tf \<le> te)))
               (directFlights sr))
     \<and> (\<forall>h1 m1 h2 m2.
          h1 < 24 \<and> m1 < 60 \<and> h2 < 24 \<and> m2 < 60
          \<and> rangeStart (departureTimeRange filters) = pad2 h1 @ '':'' @ pad2 m1
          \<and> rangeEnd (departureTimeRange filters) = pad2 h2 @ '':'' @ pad2 m2
          \<longrightarrow> mset (directFlights r) =
                mset (filter (\<lambda>flight.
                 (maxPrice filters > 0 \<longrightarrow>
                    (case seatClass filters of
                       Some FIRST \<Rightarrow> firstClassPrice flight
                     | Some BUSINESS \<Rightarrow> businessClassPrice flight
                     | Some ECONOMY \<Rightarrow> economyClassPrice flight
                     | None \<Rightarrow> economyClassPrice flight) \<le> maxPrice filters)
               \<and> (\<forall>c. seatClass filters = Some c \<longrightarrow>
                    (case c of
                       FIRST \<Rightarrow> availableFirstClassSeats flight
                     | BUSINESS \<Rightarrow> availableBusinessClassSeats flight
                     | ECONOMY \<Rightarrow> availableEconomyClassSeats flight) > 0)
               \<and> (\<exists>t. getTime d (departureTime flight) = Some t
                      \<and> int (60 * h1 + m1) \<le> (t div 60000 + tzOffset d t) mod 1440
                      \<and> (t div 60000 + tzOffset d t) mod 1440 \<le> int (60 * h2 + m2)))
                      (directFlights sr)))
     \<and> transitFlights r =
         filter (\<lambda>option.
                 (maxPrice filters > 0 \<longrightarrow> totalPrice option \<le> maxPrice filters)
               \<and> int (length (optionFlights option)) - 1 \<le> maxStops filters)
               (transitFlights sr)
     \<and> set (directFlights r) \<subseteq> set (directFlights sr)
     \<and> set (transitFlights r) \<subseteq> set (transitFlights sr)"
proof -
  let ?G = "\<lambda>flight.
                 (maxPrice filters > 0 \<longrightarrow>
                    (case seatClass filters of
                       Some FIRST \<Rightarrow> firstClassPrice flight
                     | Some BUSINESS \<Rightarrow> businessClassPrice flight
                     | Some ECONOMY \<Rightarrow> economyClassPrice flight
                     | None \<Rightarrow> economyClassPrice flight) \<le> maxPrice filters)
               \<and> (\<forall>c. seatClass filters = Some c \<longrightarrow>
                    (case c of
                       FIRST \<Rightarrow> availableFirstClassSeats flight
                     | BUSINESS \<Rightarrow> availableBusinessClassSeats flight
                     | ECONOMY \<Rightarrow> availableEconomyClassSeats flight) > 0)
               \<and> (rangeStart (departureTimeRange filters) \<noteq> []
                    \<and> rangeEnd (departureTimeRange filters) \<noteq> [] \<longrightarrow>
                    (\<exists>ts tf te.
                        getTime d (''2000-01-01T'' @ rangeStart (departureTimeRange filters)) = Some ts
                      \<and> getTime d (''2000-01-01T''
                                      @ take 5 (toTimeString d (departureTime flight))) = Some tf
                      \<and> getTime d (''2000-01-01T'' @ rangeEnd (departureTimeRange filters)) = Some te
                      \<and> ts \<le> tf \<and> tf \<le> te))"
  let ?C = "\<lambda>flight.
                 (maxPrice filters > 0 \<longrightarrow>
                    classPrice (seatClass filters) flight \<le> maxPrice filters)
               \<and> (seatClass filters \<noteq> None \<longrightarrow>
                    classAvailableSeats (seatClass filters) flight > 0)
               \<and> (rangeStart (departureTimeRange filters) \<noteq> []
                    \<and> rangeEnd (departureTimeRange filters) \<noteq> [] \<longrightarrow>
                    num_le (clockTime d (rangeStart (departureTimeRange filters)))
                      (flightTime d flight)
                    \<and> num_le (flightTime d flight)
                        (clockTime d (rangeEnd (departureTimeRange filters))))"
  let ?T = "\<lambda>option.
                 (maxPrice filters > 0 \<longrightarrow> totalPrice option \<le> maxPrice filters)
               \<and> int (length (optionFlights option)) - 1 \<le> maxStops filters"
  define r where "r = \<lparr>directFlights =
        array_sort (sortFunctions d filters (sortBy filters)) (filter ?C (directFlights sr)),
        transitFlights = filter ?T (transitFlights sr)\<rparr>"
  have run: "getFilteredResults d filters (Some sr) = Some r"
    unfolding getFilteredResults_def r_def Let_def
    apply (simp only: option.case filter_if)
    apply (simp only: filter_filter conj_assoc)
    done
  have price: "classPrice (seatClass filters) flight =
                    (case seatClass filters of
                       Some FIRST \<Rightarrow> firstClassPrice flight
                     | Some BUSINESS \<Rightarrow> businessClassPrice flight
                     | Some ECONOMY \<Rightarrow> economyClassPrice flight
                     | None \<Rightarrow> economyClassPrice flight)" for flight
    by (simp add: classPrice_def split: option.splits SeatClass.splits)
  have seats: "(seatClass filters \<noteq> None \<longrightarrow>
                    classAvailableSeats (seatClass filters) flight > 0) =
               (\<forall>c. seatClass filters = Some c \<longrightarrow>
                    (case c of
                       FIRST \<Rightarrow> availableFirstClassSeats flight
                     | BUSINESS \<Rightarrow> availableBusinessClassSeats flight
                     | ECONOMY \<Rightarrow> availableEconomyClassSeats flight) > 0)" for flight
    by (cases "seatClass filters")
       (simp_all add: classAvailableSeats_def split: SeatClass.splits)
  have window: "(num_le (clockTime d (rangeStart (departureTimeRange filters)))
                      (flightTime d flight)
                    \<and> num_le (flightTime d flight)
                        (clockTime d (rangeEnd (departureTimeRange filters)))) =
                (\<exists>ts tf te.
                        getTime d (''2000-01-01T'' @ rangeStart (departureTimeRange filters)) = Some ts
                      \<and> getTime d (''2000-01-01T''
                                      @ take 5 (toTimeString d (departureTime flight))) = Some tf
                      \<and> getTime d (''2000-01-01T'' @ rangeEnd (departureTimeRange filters)) = Some te
                      \<and> ts \<le> tf \<and> tf \<le> te)" for flight
    unfolding num_le_between by (simp only: clockTime_def flightTime_def)
  have CG: "?C flight = ?G flight" for flight
    by (simp only: price seats window)
  have direct: "mset (directFlights r) = mset (filter ?G (directFlights sr))"
  proof -
    have "filter ?C (directFlights sr) = filter ?G (directFlights sr)"
      by (rule filter_cong [OF refl]) (rule CG)
    then show ?thesis
      by (simp only: r_def FlightSearchResult.simps mset_array_sort)
  qed
  have concrete: "mset (directFlights r) =
                mset (filter (\<lambda>flight.
                 (maxPrice filters > 0 \<longrightarrow>
                    (case seatClass filters of
                       Some FIRST \<Rightarrow> firstClassPrice flight
                     | Some BUSINESS \<Rightarrow> businessClassPrice flight
                     | Some ECONOMY \<Rightarrow> economyClassPrice flight
                     | None \<Rightarrow> economyClassPrice flight) \<le> maxPrice filters)
               \<and> (\<forall>c. seatClass filters = Some c \<longrightarrow>
                    (case c of
                       FIRST \<Rightarrow> availableFirstClassSeats flight
                     | BUSINESS \<Rightarrow> availableBusinessClassSeats flight
                     | ECONOMY \<Rightarrow> availableEconomyClassSeats flight) > 0)
               \<and> (\<exists>t. getTime d (departureTime flight) = Some t
                      \<and> int (60 * h1 + m1) \<le> (t div 60000 + tzOffset d t) mod 1440
                      \<and> (t div 60000 + tzOffset d t) mod 1440 \<le> int (60 * h2 + m2)))
                      (directFlights sr))"
    if hyp: "h1 < 24 \<and> m1 < 60 \<and> h2 < 24 \<and> m2 < 60
          \<and> rangeStart (departureTimeRange filters) = pad2 h1 @ '':'' @ pad2 m1
          \<and> rangeEnd (departureTimeRange filters) = pad2 h2 @ '':'' @ pad2 m2"
    for h1 m1 h2 m2
  proof -
    from hyp have b: "h1 < 24" "m1 < 60" "h2 < 24" "m2 < 60"
      and st: "rangeStart (departureTimeRange filters) = pad2 h1 @ '':'' @ pad2 m1"
      and en: "rangeEnd (departureTimeRange filters) = pad2 h2 @ '':'' @ pad2 m2"
      by simp_all
    have set_both: "rangeStart (departureTimeRange filters) \<noteq> []
                    \<and> rangeEnd (departureTimeRange filters) \<noteq> []"
      unfolding st en using pad2_not_empty by simp
    have w: "(num_le (clockTime d (rangeStart (departureTimeRange filters)))
                      (flightTime d flight)
                    \<and> num_le (flightTime d flight)
                        (clockTime d (rangeEnd (departureTimeRange filters)))) =
             (\<exists>t. getTime d (departureTime flight) = Some t
                      \<and> int (60 * h1 + m1) \<le> (t div 60000 + tzOffset d t) mod 1440
                      \<and> (t div 60000 + tzOffset d t) mod 1440 \<le> int (60 * h2 + m2))" for flight
      unfolding st en by (rule time_window [OF b])
    have "?C flight = (\<lambda>flight.
                 (maxPrice filters > 0 \<longrightarrow>
                    (case seatClass filters of
                       Some FIRST \<Rightarrow> firstClassPrice flight
                     | Some BUSINESS \<Rightarrow> businessClassPrice flight
                     | Some ECONOMY \<Rightarrow> economyClassPrice flight
                     | None \<Rightarrow> economyClassPrice flight) \<le> maxPrice filters)
               \<and> (\<forall>c. seatClass filters = Some c \<longrightarrow>
                    (case c of
                       FIRST \<Rightarrow> availableFirstClassSeats flight
                     | BUSINESS \<Rightarrow> availableBusinessClassSeats flight
                     | ECONOMY \<Rightarrow> availableEconomyClassSeats flight) > 0)
               \<and> (\<exists>t. getTime d (departureTime flight) = Some t
                      \<and> int (60 * h1 + m1) \<le> (t div 60000 + tzOffset d t) mod 1440
                      \<and> (t div 60000 + tzOffset d t) mod 1440 \<le> int (60 * h2 + m2))) flight" for flight
      using set_both by (simp only: price seats w simp_thms)
    then have "filter ?C (directFlights sr) =
               filter (\<lambda>flight.
                 (maxPrice filters > 0 \<longrightarrow>
                    (case seatClass filters of
                       Some FIRST \<Rightarrow> firstClassPrice flight
                     | Some BUSINESS \<Rightarrow> businessClassPrice flight
                     | Some ECONOMY \<Rightarrow> economyClassPrice flight
                     | None \<Rightarrow> economyClassPrice flight) \<le> maxPrice filters)
               \<and> (\<forall>c. seatClass filters = Some c \<longrightarrow>
                    (case c of
                       FIRST \<Rightarrow> availableFirstClassSeats flight
                     | BUSINESS \<Rightarrow> availableBusinessClassSeats flight
                     | ECONOMY \<Rightarrow> availableEconomyClassSeats flight) > 0)
               \<and> (\<exists>t. getTime d (departureTime flight) = Some t
                      \<and> int (60 * h1 + m1) \<le> (t div 60000 + tzOffset d t) mod 1440
                      \<and> (t div 60000 + tzOffset d t) mod 1440 \<le> int (60 * h2 + m2))) (directFlights sr)"
      by (intro filter_cong refl)
    then show ?thesis
      by (simp only: r_def FlightSearchResult.simps mset_array_sort)
  qed
  have transit: "transitFlights r = filter ?T (transitFlights sr)"
    by (simp add: r_def)
  have sub1: "set (directFlights r) \<subseteq> set (directFlights sr)"
  proof -
    have "set (directFlights r) = set (filter ?G (directFlights sr))"
      using direct by (rule mset_eq_setD)
    then show ?thesis by (simp only: set_filter) blast
  qed
  have sub2: "set (transitFlights r) \<subseteq> set (transitFlights sr)"
    by (simp only: transit set_filter) blast
  show ?thesis
  proof (rule exI [of _ r], intro conjI allI impI)
    show "getFilteredResults d filters (Some sr) = Some r" by (rule run)
    show "mset (directFlights r) = mset (filter ?G (directFlights sr))" by (rule direct)
    show "transitFlights r = filter ?T (transitFlights sr)" by (rule transit)
    show "set (directFlights r) \<subseteq> set (directFlights sr)" by (rule sub1)
    show "set (transitFlights r) \<subseteq> set (transitFlights sr)" by (rule sub2)
  next
    fix h1 m1 h2 m2
    assume "h1 < 24 \<and> m1 < 60 \<and> h2 < 24 \<and> m2 < 60
          \<and> rangeStart (departureTimeRange filters) = pad2 h1 @ '':'' @ pad2 m1
          \<and> rangeEnd (departureTimeRange filters) = pad2 h2 @ '':'' @ pad2 m2"
    then show "mset (directFlights r) =
                mset (filter (\<lambda>flight.
                 (maxPrice filters > 0 \<longrightarrow>
                    (case seatClass filters of
                       Some FIRST \<Rightarrow> firstClassPrice flight
                     | Some BUSINESS \<Rightarrow> businessClassPrice flight
                     | Some ECONOMY \<Rightarrow> economyClassPrice flight
                     | None \<Rightarrow> economyClassPrice flight) \<le> maxPrice filters)
               \<and> (\<forall>c. seatClass filters = Some c \<longrightarrow>
                    (case c of
                       FIRST \<Rightarrow> availableFirstClassSeats flight
                     | BUSINESS \<Rightarrow> availableBusinessClassSeats flight
                     | ECONOMY \<Rightarrow> availableEconomyClassSeats flight) > 0)
               \<and> (\<exists>t. getTime d (departureTime flight) = Some t
                      \<and> int (60 * h1 + m1) \<le> (t div 60000 + tzOffset d t) mod 1440
                      \<and> (t div 60000 + tzOffset d t) mod 1440 \<le> int (60 * h2 + m2)))
                      (directFlights sr))"
      by (rule concrete)
  qed
qed

lemma demo_getTime:
  "getTime demo_date (departureTime flightA) = Some (60000 * 2010)"
  "getTime demo_date (departureTime flightB) = Some (60000 * 1875)"
  "getTime demo_date (departureTime flightC) = Some (60000 * 2760)"
  "getTime demo_date (departureTime flightBad) = None"
  by (simp_all add: getTime_def demo_date_def flightA_def flightB_def flightC_def
        flightBad_def demo_flight_def iso_minutes_def nat_of_string_def digit_val_def)

lemma demo_pad2: "pad2 6 = ''06''" "pad2 12 = ''12''" "pad2 0 = ''00''"
  by (simp_all add: pad2_def digit_char_def)



lemma demo_fields:
  "businessClassPrice flightA = 300" "businessClassPrice flightB = 250"
  "businessClassPrice flightC = 700"
  "economyClassPrice flightA = 120" "economyClassPrice flightB = 90"
  "economyClassPrice flightC = 300"
  "availableBusinessClassSeats flightA = 0" "availableBusinessClassSeats flightB = 5"
  "availableBusinessClassSeats flightC = 4"
  by (simp_all add: flightA_def flightB_def flightC_def demo_flight_def)

lemma demo_filter_fields:
  "maxPrice demo_filters = 1000" "seatClass demo_filters = Some BUSINESS"
  "rangeStart (departureTimeRange demo_filters) = ''06:00''"
  "rangeEnd (departureTimeRange demo_filters) = ''12:00''"
  "maxStops demo_filters = 1"
  "maxPrice demo_filters_departure = 1000" "seatClass demo_filters_departure = None"
  "rangeStart (departureTimeRange demo_filters_departure) = ''06:00''"
  "rangeEnd (departureTimeRange demo_filters_departure) = ''12:00''"
  "maxStops demo_filters_departure = 1" "sortBy demo_filters_departure = ByDeparture"
  by (simp_all add: demo_filters_def demo_filters_departure_def)




theorem getFilteredResults_selection_witness:
  "0 < maxPrice demo_filters \<and> seatClass demo_filters = Some BUSINESS
   \<and> (6::nat) < 24 \<and> (0::nat) < 60 \<and> (12::nat) < 24
   \<and> rangeStart (departureTimeRange demo_filters) = pad2 6 @ '':'' @ pad2 0
   \<and> rangeEnd (departureTimeRange demo_filters) = pad2 12 @ '':'' @ pad2 0
   \<and> businessClassPrice flightC \<le> 1000 \<and> 0 < availableBusinessClassSeats flightC
   \<and> getTime demo_date (departureTime flightC) = Some (60000 * 2760)
   \<and> (60000 * 2760 div 60000 + tzOffset demo_date (60000 * 2760)) mod 1440 = 1380
   \<and> (\<exists>r. getFilteredResults demo_date demo_filters (Some demo_results) = Some r
          \<and> mset (directFlights r) = {#flightB#}
          \<and> transitFlights r = [demo_option ''T1'' 350 [flightA, flightB],
                                  demo_option ''T3'' 900 [flightA]])"
proof -
  have r: "directFlights demo_results = [flightA, flightB, flightC]"
    "transitFlights demo_results = [demo_option ''T1'' 350 [flightA, flightB],
                        demo_option ''T2'' 380 [flightA, flightB, flightC],
                        demo_option ''T3'' 900 [flightA]]"
    by (simp_all add: demo_results_def)
  have o: "totalPrice (demo_option i p fs) = p" "optionFlights (demo_option i p fs) = fs"
    for i p fs
    by (simp_all add: demo_option_def)
  have tz: "tzOffset demo_date t = 60" for t
    by (simp add: demo_date_def)
  have bounds: "(6::nat) < 24 \<and> (0::nat) < 60 \<and> (12::nat) < 24 \<and> (0::nat) < 60
     \<and> rangeStart (departureTimeRange demo_filters) = pad2 6 @ '':'' @ pad2 0
     \<and> rangeEnd (departureTimeRange demo_filters) = pad2 12 @ '':'' @ pad2 0"
    by (simp add: demo_filter_fields demo_pad2)
  from getFilteredResults_selection [of demo_date demo_filters demo_results]
  obtain r where run: "getFilteredResults demo_date demo_filters (Some demo_results) = Some r"
    and conc: "\<forall>h1 m1 h2 m2.
          h1 < 24 \<and> m1 < 60 \<and> h2 < 24 \<and> m2 < 60
          \<and> rangeStart (departureTimeRange demo_filters) = pad2 h1 @ '':'' @ pad2 m1
          \<and> rangeEnd (departureTimeRange demo_filters) = pad2 h2 @ '':'' @ pad2 m2
          \<longrightarrow> mset (directFlights r) =
                mset (filter (\<lambda>flight.
                 (maxPrice demo_filters > 0 \<longrightarrow>
                    (case seatClass demo_filters of
                       Some FIRST \<Rightarrow> firstClassPrice flight
                     | Some BUSINESS \<Rightarrow> businessClassPrice flight
                     | Some ECONOMY \<Rightarrow> economyClassPrice flight
                     | None \<Rightarrow> economyClassPrice flight) \<le> maxPrice demo_filters)
               \<and> (\<forall>c. seatClass demo_filters = Some c \<longrightarrow>
                    (case c of
                       FIRST \<Rightarrow> availableFirstClassSeats flight
                     | BUSINESS \<Rightarrow> availableBusinessClassSeats flight
                     | ECONOMY \<Rightarrow> availableEconomyClassSeats flight) > 0)
               \<and> (\<exists>t. getTime demo_date (departureTime flight) = Some t
                      \<and> int (60 * h1 + m1) \<le> (t div 60000 + tzOffset demo_date t) mod 1440
                      \<and> (t div 60000 + tzOffset demo_date t) mod 1440 \<le> int (60 * h2 + m2)))
                      (directFlights demo_results))"
    and transit: "transitFlights r =
         filter (\<lambda>option.
                 (maxPrice demo_filters > 0 \<longrightarrow> totalPrice option \<le> maxPrice demo_filters)
               \<and> int (length (optionFlights option)) - 1 \<le> maxStops demo_filters)
               (transitFlights demo_results)"
    by blast
  from conc bounds have "mset (directFlights r) =
                mset (filter (\<lambda>flight.
                 (maxPrice demo_filters > 0 \<longrightarrow>
                    (case seatClass demo_filters of
                       Some FIRST \<Rightarrow> firstClassPrice flight
                     | Some BUSINESS \<Rightarrow> businessClassPrice flight
                     | Some ECONOMY \<Rightarrow> economyClassPrice flight
                     | None \<Rightarrow> economyClassPrice flight) \<le> maxPrice demo_filters)
               \<and> (\<forall>c. seatClass demo_filters = Some c \<longrightarrow>
                    (case c of
                       FIRST \<Rightarrow> availableFirstClassSeats flight
                     | BUSINESS \<Rightarrow> availableBusinessClassSeats flight
                     | ECONOMY \<Rightarrow> availableEconomyClassSeats flight) > 0)
               \<and> (\<exists>t. getTime demo_date (departureTime flight) = Some t
                      \<and> int (60 * 6 + 0) \<le> (t div 60000 + tzOffset demo_date t) mod 1440
                      \<and> (t div 60000 + tzOffset demo_date t) mod 1440 \<le> int (60 * 12 + 0)))
                      (directFlights demo_results))"
    by blast
  then have direct: "mset (directFlights r) = {#flightB#}"
    by (simp add: demo_filter_fields r demo_fields demo_getTime tz)
  from transit have t: "transitFlights r = [demo_option ''T1'' 350 [flightA, flightB],
                                  demo_option ''T3'' 900 [flightA]]"
    by (simp add: demo_filter_fields r o)
  have c: "businessClassPrice flightC \<le> 1000 \<and> 0 < availableBusinessClassSeats flightC
     \<and> getTime demo_date (departureTime flightC) = Some (60000 * 2760)
     \<and> (60000 * 2760 div 60000 + tzOffset demo_date (60000 * 2760)) mod 1440 = 1380"
    by (simp add: demo_fields demo_getTime tz)
  have f: "0 < maxPrice demo_filters \<and> seatClass demo_filters = Some BUSINESS"
    by (simp add: demo_filter_fields)
  from run direct t have "\<exists>r. getFilteredResults demo_date demo_filters (Some demo_results) = Some r
          \<and> mset (directFlights r) = {#flightB#}
          \<and> transitFlights r = [demo_option ''T1'' 350 [flightA, flightB],
                                  demo_option ''T3'' 900 [flightA]]"
    by blast
  with f bounds c show ?thesis by blast
qed

section \<open>ApiService: properties\<close>

lemma api_request_sent:
  "sent (api_request adapter m url payload w) =
     [request_interceptor w
        \<lparr>requestMethod = m, requestUrl = url,
         requestHeaders = [''Content-Type'' \<mapsto> ''application/json''],
         requestPayload = payload, retryMark = False\<rparr>]"
  by (simp add: api_request_def Let_def split: http_outcome.splits prod.splits)

lemma request_interceptor_retryMark:
  "retryMark (request_interceptor w config) = retryMark config"
  by (simp add: request_interceptor_def split: option.splits)

lemma api_request_failed:
  assumes "adapter (request_interceptor w
        \<lparr>requestMethod = m, requestUrl = url,
         requestHeaders = [''Content-Type'' \<mapsto> ''application/json''],
         requestPayload = payload, retryMark = False\<rparr>) = Failed e"
  shows "outcome (api_request adapter m url payload w) = Inl (handleError e)"
    and "retryMark (settled (api_request adapter m url payload w))
           = (map_option responseStatus (errorResponse e) = Some 401)"
    and "browserAfter (api_request adapter m url payload w) =
           (if map_option responseStatus (errorResponse e) = Some 401
               \<and> pathname w \<noteq> ''/login'' \<and> pathname w \<noteq> ''/register''
            then (removeAuthToken w)\<lparr>pendingRedirects := pendingRedirects w + 1\<rparr>
            else w)"
  using assms
  by (auto simp: api_request_def Let_def response_error_interceptor_def
        request_interceptor_retryMark)

lemma api_request_fulfilled:
  assumes "adapter (request_interceptor w
        \<lparr>requestMethod = m, requestUrl = url,
         requestHeaders = [''Content-Type'' \<mapsto> ''application/json''],
         requestPayload = payload, retryMark = False\<rparr>) = Fulfilled body"
  shows "outcome (api_request adapter m url payload w) = Inr body"
    and "browserAfter (api_request adapter m url payload w) = w"
  using assms by (simp_all add: api_request_def Let_def)

text \<open>
  C5, as amended. Each of \<open>get\<close>, \<open>getPaginated\<close>, \<open>post\<close>, \<open>put\<close>, \<open>patch\<close> and
  \<open>delete\<close> hands exactly one request to the HTTP adapter and never a second one. When
  the adapter fails, the call rejects with \<open>handleError\<close> of that failure; the response
  interceptor marks the request with \<open>_retry\<close> exactly when the status is 401, and, only
  when the page is neither \<open>/login\<close> nor \<open>/register\<close>, it also removes \<open>auth_token\<close> and
  \<open>user_data\<close> and sets a timer for the redirect to \<open>/login\<close>. Any other failure, and any
  success, leaves the browser as it was.
\<close>

theorem api_call_single_request:
  "\<forall>r \<in> {api_get adapter url payload w, api_getPaginated adapter url payload w,
           api_post adapter url payload w, api_put adapter url payload w,
           api_patch adapter url payload w, api_delete adapter url w}.
     length (sent r) = 1
     \<and> (\<forall>e. adapter (hd (sent r)) = Failed e \<longrightarrow>
            outcome r = Inl (handleError e)
          \<and> retryMark (settled r) = (map_option responseStatus (errorResponse e) = Some 401)
          \<and> browserAfter r =
              (if map_option responseStatus (errorResponse e) = Some 401
                  \<and> pathname w \<noteq> ''/login'' \<and> pathname w \<noteq> ''/register''
               then (removeAuthToken w)\<lparr>pendingRedirects := pendingRedirects w + 1\<rparr>
               else w))
     \<and> (\<forall>body. adapter (hd (sent r)) = Fulfilled body \<longrightarrow>
            outcome r = Inr body \<and> browserAfter r = w)"
proof -
  have one: "length (sent (api_request adapter m url p w)) = 1
     \<and> (\<forall>e. adapter (hd (sent (api_request adapter m url p w))) = Failed e \<longrightarrow>
            outcome (api_request adapter m url p w) = Inl (handleError e)
          \<and> retryMark (settled (api_request adapter m url p w))
              = (map_option responseStatus (errorResponse e) = Some 401)
          \<and> browserAfter (api_request adapter m url p w) =
              (if map_option responseStatus (errorResponse e) = Some 401
                  \<and> pathname w \<noteq> ''/login'' \<and> pathname w \<noteq> ''/register''
               then (removeAuthToken w)\<lparr>pendingRedirects := pendingRedirects w + 1\<rparr>
               else w))
     \<and> (\<forall>body. adapter (hd (sent (api_request adapter m url p w))) = Fulfilled body \<longrightarrow>
            outcome (api_request adapter m url p w) = Inr body
          \<and> browserAfter (api_request adapter m url p w) = w)" for m p
    using api_request_failed [of adapter w m url p] api_request_fulfilled [of adapter w m url p]
    by (simp add: api_request_sent)
  show ?thesis
    unfolding api_get_def api_getPaginated_def api_post_def api_put_def api_patch_def
      api_delete_def
    using one by blast
qed

lemma handleError_401: "handleError demo_error_401 =
   Threw \<lparr>code = ''HTTP_401'', appMessage = JStr ''Token expired'',
          details = OfData (JObj [(''message'', JStr ''Token expired'')])\<rparr>"
  by (simp add: handleError_def demo_error_401_def js_or_def string_of_nat.simps digit_char_def)

theorem api_call_single_request_witness:
  "demo_unauthorized (hd (sent (api_get demo_unauthorized ''/flights'' None demo_browser)))
     = Failed demo_error_401
   \<and> length (sent (api_get demo_unauthorized ''/flights'' None demo_browser)) = 1
   \<and> outcome (api_get demo_unauthorized ''/flights'' None demo_browser) =
       Inl (Threw \<lparr>code = ''HTTP_401'', appMessage = JStr ''Token expired'',
                   details = OfData (JObj [(''message'', JStr ''Token expired'')])\<rparr>)
   \<and> retryMark (settled (api_get demo_unauthorized ''/flights'' None demo_browser))
   \<and> localStorage (browserAfter (api_get demo_unauthorized ''/flights'' None demo_browser))
        ''auth_token'' = None
   \<and> pendingRedirects (browserAfter (api_get demo_unauthorized ''/flights'' None demo_browser)) = 1"
proof -
  have h: "demo_unauthorized (hd (sent (api_get demo_unauthorized ''/flights'' None demo_browser)))
     = Failed demo_error_401"
    by (simp add: demo_unauthorized_def)
  have s: "map_option responseStatus (errorResponse demo_error_401) = Some 401"
    by (simp add: demo_error_401_def)
  have p: "pathname demo_browser = ''/search''" "pendingRedirects demo_browser = 0"
    by (simp_all add: demo_browser_def)
  from api_call_single_request [of demo_unauthorized "''/flights''" None demo_browser]
  have "length (sent (api_get demo_unauthorized ''/flights'' None demo_browser)) = 1
     \<and> (\<forall>e. demo_unauthorized (hd (sent (api_get demo_unauthorized ''/flights'' None demo_browser)))
              = Failed e \<longrightarrow>
            outcome (api_get demo_unauthorized ''/flights'' None demo_browser) = Inl (handleError e)
          \<and> retryMark (settled (api_get demo_unauthorized ''/flights'' None demo_browser))
              = (map_option responseStatus (errorResponse e) = Some 401)
          \<and> browserAfter (api_get demo_unauthorized ''/flights'' None demo_browser) =
              (if map_option responseStatus (errorResponse e) = Some 401
                  \<and> pathname demo_browser \<noteq> ''/login'' \<and> pathname demo_browser \<noteq> ''/register''
               then (removeAuthToken demo_browser)\<lparr>pendingRedirects := pendingRedirects demo_browser + 1\<rparr>
               else demo_browser))"
    by simp
  with h have "length (sent (api_get demo_unauthorized ''/flights'' None demo_browser)) = 1"
    and "outcome (api_get demo_unauthorized ''/flights'' None demo_browser) = Inl (handleError demo_error_401)"
    and "retryMark (settled (api_get demo_unauthorized ''/flights'' None demo_browser))"
    and "browserAfter (api_get demo_unauthorized ''/flights'' None demo_browser) =
           (removeAuthToken demo_browser)\<lparr>pendingRedirects := 1\<rparr>"
    using s p by simp_all
  then show ?thesis
    using h by (simp add: handleError_401 removeAuthToken_def)
qed

text \<open>
  C5 as stated says that the 401 interceptor removes the stored token. On the login page
  it does not: the call is rejected and the request marked, and the token is still stored.
\<close>

theorem unauthorized_on_login_page_keeps_token:
  "outcome (api_get demo_unauthorized ''/flights'' None demo_browser_login) =
       Inl (Threw \<lparr>code = ''HTTP_401'', appMessage = JStr ''Token expired'',
                   details = OfData (JObj [(''message'', JStr ''Token expired'')])\<rparr>)
   \<and> retryMark (settled (api_get demo_unauthorized ''/flights'' None demo_browser_login))
   \<and> localStorage (browserAfter (api_get demo_unauthorized ''/flights'' None demo_browser_login))
        ''auth_token'' = Some ''tok123''"
  by (simp add: api_get_def api_request_def Let_def demo_unauthorized_def handleError_401
        response_error_interceptor_def request_interceptor_retryMark demo_browser_login_def
        demo_browser_def)
     (simp add: demo_error_401_def)

lemma handleError_mapping:
  "handleError \<lparr>errorResponse = Some \<lparr>responseStatus = s, responseData = body\<rparr>,
                 errorRequest = rq, errorMessage = msg\<rparr> =
     (if body = JNull then TypeError
      else Threw \<lparr>code = ''HTTP_'' @ string_of_nat s,
                  appMessage =
                    (case property body ''message'' of
                       Some m \<Rightarrow> if truthy m then m
                                 else (case property body ''error'' of
                                         Some e \<Rightarrow> if truthy e then e else JStr ''An error occurred''
                                       | None \<Rightarrow> JStr ''An error occurred'')
                     | None \<Rightarrow> (case property body ''error'' of
                                         Some e \<Rightarrow> if truthy e then e else JStr ''An error occurred''
                                       | None \<Rightarrow> JStr ''An error occurred'')),
                  details = OfData body\<rparr>)"
  "handleError \<lparr>errorResponse = None, errorRequest = True, errorMessage = msg\<rparr> =
     Threw \<lparr>code = ''NETWORK_ERROR'',
            appMessage = JStr ''Network error. Please check your connection.'',
            details = OfRequest\<rparr>"
  "handleError \<lparr>errorResponse = None, errorRequest = False, errorMessage = msg\<rparr> =
     Threw \<lparr>code = ''UNKNOWN_ERROR'',
            appMessage = (case msg of
                            Some m \<Rightarrow> if m \<noteq> [] then JStr m else JStr ''An unknown error occurred''
                          | None \<Rightarrow> JStr ''An unknown error occurred''),
            details = OfError \<lparr>errorResponse = None, errorRequest = False, errorMessage = msg\<rparr>\<rparr>"
  by (auto simp: handleError_def js_or_def split: json.splits option.splits)

text \<open>
  C6. The claim holds for every error whose response body is not \<open>null\<close>
  (\<open>handleError_mapping\<close>). At a response with status 500 and the body \<open>null\<close>,
  reading \<open>data.message\<close> raises a \<open>TypeError\<close>, and that is what the HTTP method throws
  instead of the object with code \<open>HTTP_500\<close>.
\<close>

theorem handleError_null_body_throws_TypeError:
  "handleError demo_error_null_body = TypeError
   \<and> outcome (api_get demo_null_body ''/flights'' None demo_browser) = Inl TypeError"
  by (simp add: handleError_def demo_error_null_body_def api_get_def api_request_def Let_def
        demo_null_body_def response_error_interceptor_def split: prod.splits)

section \<open>AuthService and AuthContext: properties\<close>

lemma removeAuthToken_storage:
  "localStorage (removeAuthToken w) ''auth_token'' = None"
  "localStorage (removeAuthToken w) ''user_data'' = None"
  by (simp_all add: removeAuthToken_def)

lemma authService_logout_resolves:
  "authService_logout adapter w =
     (Inr (), removeAuthToken (browserAfter (api_post adapter ''/auth/logout'' None w)))"
  by (simp add: authService_logout_def Let_def split: sum.splits)

text \<open>
  C7. Whatever the adapter answers to \<open>POST /auth/logout\<close>, success or failure,
  \<open>logout\<close> resolves, the authentication state it leaves is
  \<open>{user: null, token: null, isAuthenticated: false, isLoading: false}\<close>, and neither
  \<open>auth_token\<close> nor \<open>user_data\<close> is in \<open>localStorage\<close>.
\<close>

theorem logout_teardown:
  "run_updates (fst (logout adapter w)) s =
     \<lparr>user = JNull, token = None, isAuthenticated = False, isLoading = False\<rparr>
   \<and> localStorage (snd (logout adapter w)) ''auth_token'' = None
   \<and> localStorage (snd (logout adapter w)) ''user_data'' = None"
  by (simp add: logout_def authService_logout_resolves run_updates_def loggedOut_def
        removeAuthToken_storage)

text \<open>
  C8, as amended. Every request carries \<open>Authorization: Bearer t\<close> when a non-empty
  token \<open>t\<close> is stored under \<open>auth_token\<close>; when no token or the empty string is stored,
  no \<open>Authorization\<close> header is added.
\<close>

theorem bearer_token_header:
  "(\<forall>t. localStorage w ''auth_token'' = Some t \<and> t \<noteq> [] \<longrightarrow>
        map (\<lambda>c. requestHeaders c ''Authorization'') (sent (api_request adapter m url payload w))
          = [Some (''Bearer '' @ t)])
   \<and> (localStorage w ''auth_token'' = None \<or> localStorage w ''auth_token'' = Some [] \<longrightarrow>
        map (\<lambda>c. requestHeaders c ''Authorization'') (sent (api_request adapter m url payload w))
          = [None])"
  by (auto simp: api_request_sent request_interceptor_def)

theorem bearer_token_header_witness:
  "localStorage demo_browser ''auth_token'' = Some ''tok123'' \<and> ''tok123'' \<noteq> []
   \<and> map (\<lambda>c. requestHeaders c ''Authorization'')
        (sent (api_request demo_accepting GET ''/flights'' None demo_browser))
       = [Some ''Bearer tok123'']"
proof -
  have h: "localStorage demo_browser ''auth_token'' = Some ''tok123'' \<and> ''tok123'' \<noteq> []"
    by (simp add: demo_browser_def)
  from bearer_token_header [of demo_browser demo_accepting GET "''/flights''" None] h
  have "map (\<lambda>c. requestHeaders c ''Authorization'')
        (sent (api_request demo_accepting GET ''/flights'' None demo_browser))
       = [Some (''Bearer '' @ ''tok123'')]"
    by blast
  with h show ?thesis by simp
qed

text \<open>
  C8 as stated promises the header for every stored token. A stored empty string is
  skipped by \<open>if (token)\<close>: nothing is added.
\<close>

theorem empty_token_sends_no_header:
  "localStorage demo_browser_empty_token ''auth_token'' = Some []
   \<and> map (\<lambda>c. requestHeaders c ''Authorization'')
        (sent (api_request demo_accepting GET ''/flights'' None demo_browser_empty_token))
       = [None]"
  by (simp add: api_request_sent request_interceptor_def demo_browser_empty_token_def)

lemma valid_user_iff:
  "valid_user v \<longleftrightarrow>
     (\<exists>kvs. v = JObj kvs \<and> truthy_prop v ''id'' \<and> truthy_prop v ''username''
            \<and> truthy_prop v ''email'')"
  by (cases v) (auto simp: valid_user_def truthy_prop_def)

text \<open>
  C10, as amended. \<open>getStoredUser\<close> always returns. It returns the parsed value exactly
  when a non-empty string is stored that parses to an object with truthy \<open>id\<close>,
  \<open>username\<close> and \<open>email\<close>, and then leaves the storage alone; otherwise it returns
  \<open>null\<close>. It removes \<open>user_data\<close> whenever a non-empty string is stored that does not
  parse or parses to something else; when nothing or the empty string is stored it
  changes nothing.
\<close>

theorem getStoredUser_total:
  "(\<forall>s kvs. localStorage w ''user_data'' = Some s \<and> s \<noteq> [] \<and> parse j s = Some (JObj kvs)
        \<and> truthy_prop (JObj kvs) ''id'' \<and> truthy_prop (JObj kvs) ''username''
        \<and> truthy_prop (JObj kvs) ''email''
        \<longrightarrow> getStoredUser j w = (JObj kvs, w))
   \<and> (\<forall>s. localStorage w ''user_data'' = Some s \<and> s \<noteq> []
        \<and> \<not> (\<exists>kvs. parse j s = Some (JObj kvs)
               \<and> truthy_prop (JObj kvs) ''id'' \<and> truthy_prop (JObj kvs) ''username''
               \<and> truthy_prop (JObj kvs) ''email'')
        \<longrightarrow> getStoredUser j w = (JNull, removeItem ''user_data'' w)
          \<and> localStorage (snd (getStoredUser j w)) ''user_data'' = None)
   \<and> (localStorage w ''user_data'' = None \<or> localStorage w ''user_data'' = Some []
        \<longrightarrow> getStoredUser j w = (JNull, w))"
proof (intro conjI allI impI)
  fix s kvs
  assume "localStorage w ''user_data'' = Some s \<and> s \<noteq> [] \<and> parse j s = Some (JObj kvs)
        \<and> truthy_prop (JObj kvs) ''id'' \<and> truthy_prop (JObj kvs) ''username''
        \<and> truthy_prop (JObj kvs) ''email''"
  then show "getStoredUser j w = (JObj kvs, w)"
    by (simp add: getStoredUser_def valid_user_iff)
next
  fix s
  assume a: "localStorage w ''user_data'' = Some s \<and> s \<noteq> []
        \<and> \<not> (\<exists>kvs. parse j s = Some (JObj kvs)
               \<and> truthy_prop (JObj kvs) ''id'' \<and> truthy_prop (JObj kvs) ''username''
               \<and> truthy_prop (JObj kvs) ''email'')"
  then show r: "getStoredUser j w = (JNull, removeItem ''user_data'' w)"
    by (auto simp: getStoredUser_def valid_user_iff split: option.splits)
  show "localStorage (snd (getStoredUser j w)) ''user_data'' = None"
    by (simp add: r removeItem_def)
next
  assume "localStorage w ''user_data'' = None \<or> localStorage w ''user_data'' = Some []"
  then show "getStoredUser j w = (JNull, w)"
    by (auto simp: getStoredUser_def)
qed

theorem getStoredUser_total_witness:
  "localStorage demo_browser ''user_data'' = Some demo_user_text \<and> demo_user_text \<noteq> []
   \<and> parse demo_json demo_user_text = Some demo_user
   \<and> getStoredUser demo_json demo_browser = (demo_user, demo_browser)"
proof -
  have h: "localStorage demo_browser ''user_data'' = Some demo_user_text"
    "demo_user_text \<noteq> []"
    "parse demo_json demo_user_text =
       Some (JObj [(''id'', JNum 7), (''username'', JStr ''ada''),
                   (''email'', JStr ''ada@example.org'')])"
    by (simp_all add: demo_browser_def demo_json_def demo_user_def) (simp add: demo_user_text_def)
  have t: "truthy_prop (JObj [(''id'', JNum 7), (''username'', JStr ''ada''),
                   (''email'', JStr ''ada@example.org'')]) ''id''"
    "truthy_prop (JObj [(''id'', JNum 7), (''username'', JStr ''ada''),
                   (''email'', JStr ''ada@example.org'')]) ''username''"
    "truthy_prop (JObj [(''id'', JNum 7), (''username'', JStr ''ada''),
                   (''email'', JStr ''ada@example.org'')]) ''email''"
    by (simp_all add: truthy_prop_def)
  from getStoredUser_total [of demo_browser demo_json] h t
  have "getStoredUser demo_json demo_browser =
          (JObj [(''id'', JNum 7), (''username'', JStr ''ada''),
                   (''email'', JStr ''ada@example.org'')], demo_browser)"
    by blast
  with h show ?thesis by (simp add: demo_user_def)
qed

text \<open>
  C10 as stated has every present but unparsable value removed. The empty string is
  present and does not parse, yet \<open>if (!userData) return null\<close> returns before the
  parse, and the key stays.
\<close>

theorem empty_user_data_is_kept:
  "localStorage demo_browser_empty_user ''user_data'' = Some []
   \<and> parse demo_json [] = None
   \<and> fst (getStoredUser demo_json demo_browser_empty_user) = JNull
   \<and> localStorage (snd (getStoredUser demo_json demo_browser_empty_user)) ''user_data''
       = Some []"
  by (simp add: getStoredUser_def demo_browser_empty_user_def demo_json_def demo_user_text_def)

section \<open>AuthContext: properties\<close>

lemma truthy_not_null: "truthy v \<Longrightarrow> v \<noteq> JNull"
  by (cases v) simp_all

lemma has_data_not_null: "has_data response \<Longrightarrow> the_data response \<noteq> JNull"
  by (auto simp: has_data_def the_data_def truthy_not_null split: option.splits)

text \<open>
  \<open>initializeAuth\<close> tests \<open>token && user\<close> before it sets \<open>isAuthenticated\<close>, so every
  state it sets is consistent.
\<close>

lemma initializeAuth_updates:
  assumes "u \<in> set (fst (initializeAuth j adapter w))"
  shows "(\<exists>t. u = Replace t \<and> (isAuthenticated t \<longrightarrow> user t \<noteq> JNull \<and> token t \<noteq> None))
       \<or> (\<exists>b. u = PatchLoading b)"
proof (cases "getStoredUser j w")
  case (Pair storedUser w1)
  show ?thesis
  proof (cases "getAuthToken w")
    case None
    with Pair assms show ?thesis by (auto simp: initializeAuth_def)
  next
    case (Some t)
    show ?thesis
    proof (cases "t \<noteq> [] \<and> truthy storedUser")
      case False
      with Pair Some assms show ?thesis by (auto simp: initializeAuth_def)
    next
      case True
      then have nn: "storedUser \<noteq> JNull" by (simp add: truthy_not_null)
      show ?thesis
      proof (cases "outcome (getCurrentUser adapter w1)")
        case (Inl e)
        with Pair Some True assms nn show ?thesis
          by (auto simp: initializeAuth_def Let_def)
      next
        case (Inr response)
        show ?thesis
        proof (cases "has_data response")
          case True
          with Pair Some \<open>t \<noteq> [] \<and> truthy storedUser\<close> Inr assms nn
            has_data_not_null [of response]
          show ?thesis by (auto simp: initializeAuth_def Let_def)
        next
          case False
          with Pair Some \<open>t \<noteq> [] \<and> truthy storedUser\<close> Inr assms nn
          show ?thesis by (auto simp: initializeAuth_def Let_def loggedOut_def)
        qed
      qed
    qed
  qed
qed

text \<open>\<open>login\<close> sets a user object, but takes the token as the answer has it.\<close>

lemma login_updates:
  assumes "u \<in> set (fst (fst (login j adapter credentials w)))"
  shows "(\<exists>t. u = Replace t \<and> (isAuthenticated t \<longrightarrow> user t \<noteq> JNull))
       \<or> (\<exists>b. u = PatchLoading b)"
  using assms
  by (auto simp: login_def split: prod.splits sum.splits option.splits if_splits)

lemma logout_updates:
  assumes "u \<in> set (fst (logout adapter w))"
  shows "u = Replace loggedOut"
  using assms by (auto simp: logout_def split: prod.splits sum.splits)

lemma refreshUser_updates:
  assumes "u \<in> set (fst (refreshUser j adapter w))"
  shows "\<exists>d. u = PatchUser d \<and> d \<noteq> JNull"
  using assms has_data_not_null
  by (auto simp: refreshUser_def Let_def split: sum.splits if_splits)

text \<open>The half of the invariant that does hold: an authenticated state has a user.\<close>

lemma exposed_has_user:
  assumes "exposed s"
  shows "isAuthenticated s \<longrightarrow> user s \<noteq> JNull"
  using assms
proof (induction rule: exposed.induct)
  case exposed_initial
  show ?case by (simp add: initialAuthState_def)
next
  case (exposed_initializeAuth s u j adapter w)
  from initializeAuth_updates [OF exposed_initializeAuth.hyps(2)] exposed_initializeAuth.IH
  show ?case by auto
next
  case (exposed_login s u j adapter' credentials w)
  from login_updates [OF exposed_login.hyps(2)] exposed_login.IH
  show ?case by auto
next
  case (exposed_logout s u adapter'' w)
  from logout_updates [OF exposed_logout.hyps(2)]
  show ?case by (simp add: loggedOut_def)
next
  case (exposed_refreshUser s u j adapter w)
  from refreshUser_updates [OF exposed_refreshUser.hyps(2)] exposed_refreshUser.IH
  show ?case by auto
qed

lemma demo_login_no_token_run:
  "login demo_json demo_login_adapter_no_token JNull demo_browser_login =
     (([PatchLoading True, Replace demo_logged_in_no_token],
       setItem ''user_data''
         (stringify demo_json (json_of_login (demo_login_response\<lparr>loginToken := None\<rparr>)))
         (setAuthToken ''null'' demo_browser_login)),
      True)"
  by (simp add: login_def authService_login_def api_post_def api_request_def Let_def
        demo_login_adapter_no_token_def demo_login_response_def demo_logged_in_no_token_def
        demo_user_object_def storage_string_def)

text \<open>
  C9. The invariant does not hold on the code. \<open>login\<close> tests only
  \<open>response.success && response.data\<close> and then sets \<open>isAuthenticated: true\<close> with
  \<open>token: response.data.token\<close>. On a successful answer whose token is \<open>null\<close> it returns
  true and the provider exposes an authenticated state without a token.
\<close>

theorem login_without_token_exposes_inconsistent_state:
  "snd (login demo_json demo_login_adapter_no_token JNull demo_browser_login) = True
   \<and> exposed demo_logged_in_no_token
   \<and> isAuthenticated demo_logged_in_no_token
   \<and> token demo_logged_in_no_token = None"
proof -
  have "exposed (apply_update (Replace demo_logged_in_no_token) initialAuthState)"
    by (rule exposed_login [OF exposed_initial, of _ demo_json demo_login_adapter_no_token
          JNull demo_browser_login]) (simp add: demo_login_no_token_run)
  then have "exposed demo_logged_in_no_token" by simp
  then show ?thesis
    by (simp add: demo_login_no_token_run) (simp add: demo_logged_in_no_token_def)
qed

section \<open>Client-side checks before create requests\<close>





end
